theory Spec2Isabelle
  imports Complex_Main "HOL-Library.Word" "HOL-Library.Signed_Division"
begin

section \<open>XCDF Python bindings: data model\<close>

text \<open>
  The development follows \<^verbatim>\<open>src/pybindings/PyXCDF.cc\<close> and
  \<^verbatim>\<open>python/XCDFTupleSetter.h\<close>. The bindings drive an \<^verbatim>\<open>XCDFFile\<close> object of the
  core library; the core's own sources (\<^verbatim>\<open>xcdf/XCDFFile.h\<close> and the codec behind it) are
  not part of the bindings, so the operations the bindings call are modelled from the
  specification and marked as such.
\<close>

subsection \<open>Fields\<close>

text \<open>The enumeration \<^verbatim>\<open>XCDFFieldType\<close> that \<^verbatim>\<open>addField\<close> switches over.\<close>

datatype XCDFFieldType = XCDF_UNSIGNED_INTEGER | XCDF_SIGNED_INTEGER | XCDF_FLOATING_POINT

text \<open>
  \<^verbatim>\<open>XCDFField<T>\<close>, as a visitor sees it: the field's name, its type tag and the values
  it holds in the current record. The element type \<^verbatim>\<open>T\<close> is the type parameter.
\<close>

datatype 'v XCDFField = XCDFField (GetName: string) (GetType: XCDFFieldType) (GetData: "'v list")

definition GetSize :: "'v XCDFField \<Rightarrow> nat" where
  "GetSize field = length (GetData field)"

text \<open>
  A field descriptor of the schema: name, type, resolution (an unsigned 64-bit, a signed
  64-bit or a floating-point number, by the field's type; doubles are represented by
  reals) and the parent's name, empty for a scalar field.
\<close>

datatype resolution =
  UnsignedResolution "64 word" | SignedResolution "64 word" | FloatingPointResolution real

record XCDFFieldDescriptor =
  d_name :: string
  d_type :: XCDFFieldType
  d_resolution :: resolution
  d_parentName :: string

subsection \<open>Python objects, exceptions and arguments\<close>

text \<open>
  The Python objects the bindings build: \<^verbatim>\<open>NULL\<close> (an unset tuple slot or a failed
  allocation), \<^verbatim>\<open>None\<close>, \<^verbatim>\<open>True\<close>, \<^verbatim>\<open>False\<close>, the object \<^verbatim>\<open>xcdf2python\<close> makes of
  a field, and a tuple.
\<close>

datatype 'o PyObject =
  NULL | Py_None | Py_True | Py_False | Py_Object 'o | PyTuple "'o PyObject list"

text \<open>The error kinds of the core, from the specification's taxonomy.\<close>

datatype xcdf_error =
  SchemaError | RecordIncompleteError | CorruptBlockError | SchemaMismatchError
  | InvalidModeError | OutOfRangeError | EndOfFileError

text \<open>
  The message of a \<^verbatim>\<open>pyxcdf.XCDFException\<close>: either \<^verbatim>\<open>e.GetMessage()\<close> of a core
  exception \<^verbatim>\<open>e\<close> caught by the bindings, or a text the bindings compose themselves.
\<close>

datatype message = GetMessage xcdf_error | Text string

datatype py_exception =
  pyxcdf_XCDFException message
  | PyExc_StopIteration
  | PyExc_AttributeError string
  | PyExc_TypeError
  | PyExc_OverflowError

text \<open>
  A binding function returns an object, or returns \<^verbatim>\<open>NULL\<close> with a Python exception
  set. The arguments of a binding function are taken as \<^verbatim>\<open>PyArg_ParseTuple\<close> delivers
  them, an optional argument being an \<open>option\<close>; a call whose arguments do not match
  the format string raises \<^verbatim>\<open>TypeError\<close> before anything else happens, and is left out
  by the types of the arguments. A name is a bytes object and a number is an int or a
  float; arguments of other Python types are left out in the same way. Where a function
  can return an object while an exception is pending, as \<^verbatim>\<open>addField\<close> can, its result
  gives the returned object and the error indicator side by side instead.
\<close>

datatype 'a py_result = Returned 'a | Raised py_exception

text \<open>
  Numeric arguments arrive as Python objects (format \<^verbatim>\<open>O\<close>): an int of any size, or
  a float, a finite double that is represented by its real value. The bindings convert
  them with the C API, Python 3 branch, as CPython 3.10 and later implement it, and
  never test the error indicator afterwards. Each conversion is given by the value it
  returns and by the exception it sets, if any:

  \<^item> \<^verbatim>\<open>PyLong_AsUnsignedLongLongMask\<close> reduces an int modulo \<open>2^64\<close>; for a float it sets
    \<^verbatim>\<open>TypeError\<close> and returns \<open>-1\<close>;
  \<^item> \<^verbatim>\<open>PyLong_AsLong\<close> returns an int that fits a 64-bit \<^verbatim>\<open>long\<close>; for any other int
    it sets \<^verbatim>\<open>OverflowError\<close>, for a float \<^verbatim>\<open>TypeError\<close>, and returns \<open>-1\<close>;
  \<^item> \<^verbatim>\<open>PyFloat_AsDouble\<close> returns a float as it is and an int rounded to the nearest
    double, ties to the even significand; for an int whose rounding is beyond the
    largest double it sets \<^verbatim>\<open>OverflowError\<close> and returns \<open>-1\<close>.
\<close>

datatype PyNumber = PyLong int | PyFloat real

fun PyLong_AsUnsignedLongLongMask :: "PyNumber \<Rightarrow> 64 word" where
  "PyLong_AsUnsignedLongLongMask (PyLong i) = word_of_int i"
| "PyLong_AsUnsignedLongLongMask (PyFloat x) = - 1"

fun PyLong_AsUnsignedLongLongMask_error :: "PyNumber \<Rightarrow> py_exception option" where
  "PyLong_AsUnsignedLongLongMask_error (PyLong i) = None"
| "PyLong_AsUnsignedLongLongMask_error (PyFloat x) = Some PyExc_TypeError"

fun PyLong_AsLong :: "PyNumber \<Rightarrow> int" where
  "PyLong_AsLong (PyLong i) = (if - (2 ^ 63) \<le> i \<and> i < 2 ^ 63 then i else - 1)"
| "PyLong_AsLong (PyFloat x) = - 1"

fun PyLong_AsLong_error :: "PyNumber \<Rightarrow> py_exception option" where
  "PyLong_AsLong_error (PyLong i) =
     (if - (2 ^ 63) \<le> i \<and> i < 2 ^ 63 then None else Some PyExc_OverflowError)"
| "PyLong_AsLong_error (PyFloat x) = Some PyExc_TypeError"

text \<open>
  The number of bits of a positive integer, and the double nearest to a magnitude: its
  leading 53 bits, rounded by the bits that follow, a tie going to the even significand.
\<close>

function bit_length :: "int \<Rightarrow> nat" where
  "bit_length n = (if n \<le> 0 then 0 else Suc (bit_length (n div 2)))"
  by pat_completeness auto
termination
  by (relation "measure nat") auto

declare bit_length.simps [simp del]

definition nearest_double :: "int \<Rightarrow> int" where
  "nearest_double m =
     (let e = bit_length m - 53;
          q = m div 2 ^ e;
          r = m mod 2 ^ e
      in (if 2 ^ e < 2 * r \<or> (2 * r = 2 ^ e \<and> odd q) then q + 1 else q) * 2 ^ e)"

fun PyFloat_AsDouble :: "PyNumber \<Rightarrow> real" where
  "PyFloat_AsDouble (PyLong i) =
     (if 2 ^ 1024 \<le> nearest_double \<bar>i\<bar> then - 1 else of_int (sgn i * nearest_double \<bar>i\<bar>))"
| "PyFloat_AsDouble (PyFloat x) = x"

fun PyFloat_AsDouble_error :: "PyNumber \<Rightarrow> py_exception option" where
  "PyFloat_AsDouble_error (PyLong i) =
     (if 2 ^ 1024 \<le> nearest_double \<bar>i\<bar> then Some PyExc_OverflowError else None)"
| "PyFloat_AsDouble_error (PyFloat x) = None"

text \<open>
  The error indicator after a call of the C API that found \<open>pending\<close> in it: the
  exception the call sets replaces the pending one, and a call that sets none leaves
  the indicator as it was.
\<close>

definition PyErr_after :: "py_exception option \<Rightarrow> py_exception option \<Rightarrow> py_exception option" where
  "PyErr_after pending raised = (case raised of Some e \<Rightarrow> Some e | None \<Rightarrow> pending)"

text \<open>
  \<^verbatim>\<open>PyBytes_AsString\<close> gives the buffer of a bytes object, which its users read as a C
  string: up to the first zero byte.
\<close>

definition PyBytes_AsString :: "string \<Rightarrow> string" where
  "PyBytes_AsString s = takeWhile (\<lambda>c. c \<noteq> CHR 0x00) s"

text \<open>
  \<^verbatim>\<open>std::stringstream << id\<close> for an unsigned integer: its decimal digits.
\<close>

definition digit :: "nat \<Rightarrow> char" where
  "digit n = ''0123456789'' ! (n mod 10)"

function decimal :: "nat \<Rightarrow> string" where
  "decimal n = (if n < 10 then [digit n] else decimal (n div 10) @ [digit n])"
  by pat_completeness auto
termination
  by (relation "measure (\<lambda>n. n)") auto

declare decimal.simps [simp del]

section \<open>The core file object\<close>

text \<open>
  Modelled from the spec: \<^verbatim>\<open>XCDFFile\<close> (sections 3, 4.1 and 4.4 to 4.6), whose source
  is not part of the bindings. A file is its open mode, its schema in declaration order,
  its records in file order (each record gives the decoded values of every field, by
  field name), the read cursor (the number of records read so far, so that record
  \<open>eventsRead - 1\<close> is the loaded one), and the id of the first record that lies in a
  corrupt block, if any.
\<close>

datatype open_mode = OpenForRead | OpenForWrite | OpenForAppend

record 'v XCDFFile =
  openMode :: open_mode
  fieldList :: "XCDFFieldDescriptor list"
  eventList :: "(string \<Rightarrow> 'v list) list"
  eventsRead :: nat
  corruptFrom :: "nat option"

text \<open>
  Modelled from the spec: schema introspection and the random access interface of
  section 6 (the field count, the total record count, the number of the loaded record),
  whose declarations are not part of the bindings. The number of the loaded record is
  \<open>-1\<close> while no record is loaded.
\<close>

definition GetNFields :: "'v XCDFFile \<Rightarrow> int" where
  "GetNFields f = int (length (fieldList f))"

definition GetEventCount :: "'v XCDFFile \<Rightarrow> int" where
  "GetEventCount f = int (length (eventList f))"

definition GetCurrentEventNumber :: "'v XCDFFile \<Rightarrow> int" where
  "GetCurrentEventNumber f = int (eventsRead f) - 1"

text \<open>
  Modelled from the spec: the block reader of section 4.4 fails with
  \<open>CorruptBlockError\<close> on a malformed block; the records from \<open>corruptFrom\<close> on are
  the ones it cannot decode.
\<close>

definition unreadable :: "'v XCDFFile \<Rightarrow> nat \<Rightarrow> bool" where
  "unreadable f i = (case corruptFrom f of None \<Rightarrow> False | Some c \<Rightarrow> c \<le> i)"

text \<open>
  Modelled from the spec: \<^verbatim>\<open>readNext\<close> of section 4.4. \<^verbatim>\<open>Read\<close> loads the next
  record and returns 1, returns 0 when no record is left, and throws
  \<open>CorruptBlockError\<close> when the record lies in a corrupt block.
\<close>

definition Read :: "'v XCDFFile \<Rightarrow> xcdf_error + (int \<times> 'v XCDFFile)" where
  "Read f =
     (if length (eventList f) \<le> eventsRead f then Inr (0, f)
      else if unreadable f (eventsRead f) then Inl CorruptBlockError
      else Inr (1, f\<lparr>eventsRead := Suc (eventsRead f)\<rparr>))"

text \<open>
  Modelled from the spec: \<^verbatim>\<open>seek\<close> of section 4.5. An id at or beyond the record count
  gives false and leaves the cursor where it is; otherwise the target record is loaded.
  The id is the unsigned 64-bit value the bindings pass.
\<close>

definition Seek :: "'v XCDFFile \<Rightarrow> 64 word \<Rightarrow> xcdf_error + (bool \<times> 'v XCDFFile)" where
  "Seek f absoluteEventPos =
     (if length (eventList f) \<le> unat absoluteEventPos then Inr (False, f)
      else if unreadable f (unat absoluteEventPos) then Inl CorruptBlockError
      else Inr (True, f\<lparr>eventsRead := Suc (unat absoluteEventPos)\<rparr>))"

text \<open>Modelled from the spec: \<^verbatim>\<open>rewind\<close> of section 4.5 resets the cursor to record 0.\<close>

definition Rewind :: "'v XCDFFile \<Rightarrow> 'v XCDFFile" where
  "Rewind f = f\<lparr>eventsRead := 0\<rparr>"

text \<open>
  Modelled from the spec: the fields of the loaded record as the core exposes them
  (section 6), each with its name, its type tag and its decoded values. Every field is
  empty while no record is loaded.
\<close>

definition currentEvent :: "'v XCDFFile \<Rightarrow> string \<Rightarrow> 'v list" where
  "currentEvent f =
     (if 0 < eventsRead f \<and> eventsRead f \<le> length (eventList f)
      then eventList f ! (eventsRead f - 1) else (\<lambda>_. []))"

definition current_fields :: "'v XCDFFile \<Rightarrow> 'v XCDFField list" where
  "current_fields f =
     map (\<lambda>d. XCDFField (d_name d) (d_type d) (currentEvent f (d_name d))) (fieldList f)"

text \<open>
  Modelled from the spec: the field visitor traversal of section 6, an ordered callback
  over all declared fields in schema order. The visitor is passed by reference and
  carries its own state \<open>s\<close>.
\<close>

definition ApplyFieldVisitor :: "('s \<Rightarrow> 'v XCDFField \<Rightarrow> 's) \<Rightarrow> 's \<Rightarrow> 'v XCDFFile \<Rightarrow> 's" where
  "ApplyFieldVisitor visitor s f = foldl visitor s (current_fields f)"

text \<open>
  Modelled from the spec: \<^verbatim>\<open>declareField\<close> of section 4.1, behind the three
  \<^verbatim>\<open>Allocate...Field\<close> calls of the bindings. An empty parent name stands for no parent,
  as the bindings pass it. A file open for reading refuses every write operation
  (section 4.6); the records of a file being written are the committed ones.
\<close>

definition parent_eligible :: "XCDFFieldDescriptor list \<Rightarrow> string \<Rightarrow> bool" where
  "parent_eligible fl parentName =
     list_ex (\<lambda>d. d_name d = parentName \<and> d_type d = XCDF_UNSIGNED_INTEGER \<and> d_parentName d = '''') fl"

definition bad_resolution :: "resolution \<Rightarrow> bool" where
  "bad_resolution res = (case res of FloatingPointResolution r \<Rightarrow> r \<le> 0 | _ \<Rightarrow> False)"

definition declareField ::
  "'v XCDFFile \<Rightarrow> string \<Rightarrow> XCDFFieldType \<Rightarrow> resolution \<Rightarrow> string \<Rightarrow> xcdf_error + 'v XCDFFile" where
  "declareField f name ty res parentName =
     (if openMode f = OpenForRead then Inl InvalidModeError
      else if name \<in> set (map d_name (fieldList f)) then Inl SchemaError
      else if parentName \<noteq> '''' \<and> \<not> parent_eligible (fieldList f) parentName then Inl SchemaError
      else if bad_resolution res then Inl SchemaError
      else if eventList f \<noteq> [] then Inl SchemaError
      else Inr (f\<lparr>fieldList := fieldList f @
                  [\<lparr>d_name = name, d_type = ty, d_resolution = res, d_parentName = parentName\<rparr>]\<rparr>))"

text \<open>
  Modelled from the spec: the three methods the bindings call to declare a field, each
  \<^verbatim>\<open>declareField\<close> at its type.
\<close>

definition AllocateUnsignedIntegerField ::
  "'v XCDFFile \<Rightarrow> string \<Rightarrow> 64 word \<Rightarrow> string \<Rightarrow> xcdf_error + 'v XCDFFile" where
  "AllocateUnsignedIntegerField f name res parentName =
     declareField f name XCDF_UNSIGNED_INTEGER (UnsignedResolution res) parentName"

definition AllocateSignedIntegerField ::
  "'v XCDFFile \<Rightarrow> string \<Rightarrow> 64 word \<Rightarrow> string \<Rightarrow> xcdf_error + 'v XCDFFile" where
  "AllocateSignedIntegerField f name res parentName =
     declareField f name XCDF_SIGNED_INTEGER (SignedResolution res) parentName"

definition AllocateFloatingPointField ::
  "'v XCDFFile \<Rightarrow> string \<Rightarrow> real \<Rightarrow> string \<Rightarrow> xcdf_error + 'v XCDFFile" where
  "AllocateFloatingPointField f name res parentName =
     declareField f name XCDF_FLOATING_POINT (FloatingPointResolution res) parentName"

section \<open>The bindings\<close>

text \<open>
  What the bindings take from headers that are not among their sources, as parameters:
  \<^verbatim>\<open>xcdf2python\<close> (\<^verbatim>\<open>XCDFTypeConversion.h\<close>); the constructor of
  \<^verbatim>\<open>FieldsByNameSelector\<close>, which throws or gives a selector, the selector being its
  \<^verbatim>\<open>GetTuple\<close> on the file it refers to; the constructor of \<^verbatim>\<open>EventSelectExpression\<close>,
  likewise, the expression being its \<^verbatim>\<open>SelectEvent\<close>; and the numeric values of the
  enumerators of \<^verbatim>\<open>XCDFFieldType\<close> (\<^verbatim>\<open>XCDFDefs.h\<close>), an enumeration held in 32 bits.
\<close>

record ('v, 'o) collaborators =
  xcdf2python :: "'v XCDFField \<Rightarrow> 'o"
  FieldsByNameSelector :: "string \<Rightarrow> 'v XCDFFile \<Rightarrow> xcdf_error + ('v XCDFFile \<Rightarrow> 'o PyObject)"
  EventSelectExpression :: "string \<Rightarrow> 'v XCDFFile \<Rightarrow> xcdf_error + ('v XCDFFile \<Rightarrow> bool)"
  XCDFFieldType_value :: "XCDFFieldType \<Rightarrow> 32 word"

subsection \<open>TupleSetter\<close>

text \<open>
  The visitor of \<^verbatim>\<open>XCDFTupleSetter.h\<close>: \<^verbatim>\<open>nfields_\<close>, \<^verbatim>\<open>ifield_\<close> and \<^verbatim>\<open>tuple_\<close>.
  \<^verbatim>\<open>PyTuple_New\<close> gives a tuple of unset slots; \<^verbatim>\<open>PyTuple_SetItem\<close> returns 0 and
  stores the item, or returns \<open>-1\<close> on an index out of range or an object that is not
  a tuple. The remainder \<^verbatim>\<open>%\<close> of C truncates towards zero; it is undefined for
  \<^verbatim>\<open>nfields_ = 0\<close>, where the traversal has no field to call the visitor with. The
  constructor takes the number of fields as an \<^verbatim>\<open>int\<close>, which \<open>GetNFields\<close> gives.
\<close>

record 'o TupleSetter =
  m_nfields :: int
  m_ifield :: int
  m_tuple :: "'o PyObject"

definition PyTuple_New :: "int \<Rightarrow> 'o PyObject" where
  "PyTuple_New n = (if n < 0 then NULL else PyTuple (replicate (nat n) NULL))"

definition PyTuple_SetItem :: "'o PyObject \<Rightarrow> int \<Rightarrow> 'o PyObject \<Rightarrow> int \<times> 'o PyObject" where
  "PyTuple_SetItem p pos newitem =
     (case p of
        PyTuple xs \<Rightarrow>
          if 0 \<le> pos \<and> pos < int (length xs) then (0, PyTuple (xs[nat pos := newitem]))
          else (- 1, p)
      | _ \<Rightarrow> (- 1, p))"

definition TupleSetter :: "int \<Rightarrow> 'o TupleSetter" where
  "TupleSetter nfields = \<lparr>m_nfields = nfields, m_ifield = 0, m_tuple = PyTuple_New nfields\<rparr>"

text \<open>\<^verbatim>\<open>TupleSetter::operator()\<close>: the callback for one field.\<close>

definition TupleSetter_call ::
  "('v XCDFField \<Rightarrow> 'o) \<Rightarrow> 'o TupleSetter \<Rightarrow> 'v XCDFField \<Rightarrow> 'o TupleSetter" where
  "TupleSetter_call conv ts field =
     (let n = GetSize field;
          slot = m_ifield ts smod m_nfields ts;
          ts' = ts\<lparr>m_ifield := m_ifield ts + 1\<rparr>
      in if n > 0
         then ts'\<lparr>m_tuple := snd (PyTuple_SetItem (m_tuple ts) slot (Py_Object (conv field)))\<rparr>
         else ts'\<lparr>m_tuple := snd (PyTuple_SetItem (m_tuple ts) slot Py_None)\<rparr>)"

definition GetTuple :: "'o TupleSetter \<Rightarrow> 'o PyObject" where
  "GetTuple ts = m_tuple ts"

subsection \<open>The record iterator\<close>

text \<open>
  \<^verbatim>\<open>iCurrent_\<close> and \<^verbatim>\<open>iTotal_\<close> are C \<^verbatim>\<open>int\<close>s, while record numbers are unsigned
  64-bit numbers (\<^verbatim>\<open>uint64_t id\<close> in \<^verbatim>\<open>getRecord\<close>). The record count and the current
  record number of the file are assigned to the two counters, which keeps the low 32
  bits as a two's complement number.
\<close>

definition int_of_uint64 :: "int \<Rightarrow> int" where
  "int_of_uint64 x = sint (word_of_int x :: 32 word)"

text \<open>
  The iterator object. Its \<^verbatim>\<open>file_\<close> pointer aliases the file of the Python
  \<^verbatim>\<open>XCDFFile\<close> object, so the file is passed next to the iterator and returned updated.
  \<open>selectCalls\<close> is a trace, not a member of the C struct: the record numbers at which
  \<^verbatim>\<open>SelectEvent\<close> has been called, in call order.
\<close>

record ('v, 'o) XCDFRecordIterator =
  iCurrent :: int
  iTotal :: int
  selectField :: "('v XCDFFile \<Rightarrow> 'o PyObject) option"
  selectEvent :: "'v XCDFFile \<Rightarrow> bool"
  selectCalls :: "int list"

text \<open>
  \<^verbatim>\<open>XCDFRecordIterator_iternext\<close>. The \<^verbatim>\<open>for (;;)\<close> loop is the recursion: \<^verbatim>\<open>continue\<close>
  is the recursive call. \<^verbatim>\<open>Read\<close> is only called when \<^verbatim>\<open>iCurrent_ < iTotal_\<close>.
\<close>

function XCDFRecordIterator_iternext ::
  "('v, 'o) collaborators \<Rightarrow> ('v, 'o) XCDFRecordIterator \<Rightarrow> 'v XCDFFile
     \<Rightarrow> 'o PyObject py_result \<times> ('v, 'o) XCDFRecordIterator \<times> 'v XCDFFile" where
  "XCDFRecordIterator_iternext env p f =
     (if iCurrent p < iTotal p then
        (case Read f of
           Inl e \<Rightarrow> (Raised (pyxcdf_XCDFException (GetMessage e)), p, f)
         | Inr (r, f1) \<Rightarrow>
             if 0 < r then
               (let p1 = p\<lparr>iCurrent := int_of_uint64 (GetCurrentEventNumber f1)\<rparr> in
                if iCurrent p1 < 0 then (Raised PyExc_StopIteration, p1, f1)
                else
                  (let p2 = p1\<lparr>selectCalls := selectCalls p1 @ [GetCurrentEventNumber f1]\<rparr> in
                   if \<not> selectEvent p2 f1 then XCDFRecordIterator_iternext env p2 f1
                   else
                     (case selectField p2 of
                        Some selector \<Rightarrow> (Returned (selector f1), p2, f1)
                      | None \<Rightarrow>
                          (let tsetter = ApplyFieldVisitor (TupleSetter_call (xcdf2python env))
                                           (TupleSetter (GetNFields f1)) f1
                           in (Returned (GetTuple tsetter), p2, f1)))))
             else (Raised PyExc_StopIteration, p, Rewind f1))
      else (Raised PyExc_StopIteration, p, Rewind f))"
  by pat_completeness auto
termination
  apply (relation "measure (\<lambda>(env, p, f). length (eventList f) - eventsRead f)")
   apply simp
  apply (auto simp: Read_def split: if_splits)
  done

declare XCDFRecordIterator_iternext.simps [simp del]

text \<open>
  \<^verbatim>\<open>XCDFRecord_iterator\<close>, the method \<^verbatim>\<open>records\<close>: the optional arguments \<^verbatim>\<open>select\<close>
  and \<^verbatim>\<open>fields\<close> (here \<open>fieldNames\<close>) are strings; without \<^verbatim>\<open>select\<close> the
  expression is \<^verbatim>\<open>"true"\<close>, which selects all events. The object's \<^verbatim>\<open>file_\<close> is
  \<^verbatim>\<open>NULL\<close> when no file is open. The file is not rewound here.
\<close>

definition XCDFRecord_iterator ::
  "('v, 'o) collaborators \<Rightarrow> 'v XCDFFile option \<Rightarrow> string option \<Rightarrow> string option
     \<Rightarrow> ('v, 'o) XCDFRecordIterator py_result" where
  "XCDFRecord_iterator env self select fieldNames =
     (case self of
        None \<Rightarrow> Raised (PyExc_AttributeError ''file: not open'')
      | Some f \<Rightarrow>
          (let selectExpression = (case select of None \<Rightarrow> ''true'' | Some s \<Rightarrow> s);
               it = \<lparr>iCurrent = 0, iTotal = int_of_uint64 (GetEventCount f),
                     selectField = None, selectEvent = (\<lambda>_. True), selectCalls = []\<rparr>
           in case EventSelectExpression env selectExpression f of
                Inl e \<Rightarrow> Raised (pyxcdf_XCDFException (GetMessage e))
              | Inr expression \<Rightarrow>
                  (case fieldNames of
                     None \<Rightarrow> Returned (it\<lparr>selectEvent := expression\<rparr>)
                   | Some names \<Rightarrow>
                       (case FieldsByNameSelector env names f of
                          Inl e \<Rightarrow> Raised (pyxcdf_XCDFException (GetMessage e))
                        | Inr selector \<Rightarrow>
                            Returned (it\<lparr>selectEvent := expression,
                                         selectField := Some selector\<rparr>)))))"

subsection \<open>Random access and schema declaration\<close>

text \<open>
  \<^verbatim>\<open>XCDFFile_getRecord\<close>: the record id is converted to an unsigned 64-bit number;
  when \<^verbatim>\<open>Seek\<close> gives false the function sets \<^verbatim>\<open>pyxcdf.XCDFException\<close> with the text
  \<^verbatim>\<open>Invalid event number\<close> and the id, and returns \<^verbatim>\<open>NULL\<close>.
\<close>

definition XCDFFile_getRecord ::
  "('v, 'o) collaborators \<Rightarrow> 'v XCDFFile option \<Rightarrow> PyNumber \<Rightarrow> string option
     \<Rightarrow> 'o PyObject py_result \<times> 'v XCDFFile option" where
  "XCDFFile_getRecord env self recordId fieldNames =
     (case self of
        None \<Rightarrow> (Raised (PyExc_AttributeError ''file: not open''), None)
      | Some f \<Rightarrow>
          (let id = PyLong_AsUnsignedLongLongMask recordId in
           case Seek f id of
             Inl e \<Rightarrow> (Raised (pyxcdf_XCDFException (GetMessage e)), Some f)
           | Inr (found, f1) \<Rightarrow>
               if found then
                 (case fieldNames of
                    None \<Rightarrow>
                      (let tsetter = ApplyFieldVisitor (TupleSetter_call (xcdf2python env))
                                       (TupleSetter (GetNFields f1)) f1
                       in (Returned (GetTuple tsetter), Some (Rewind f1)))
                  | Some names \<Rightarrow>
                      (case FieldsByNameSelector env names f1 of
                         Inl e \<Rightarrow> (Raised (pyxcdf_XCDFException (GetMessage e)), Some f1)
                       | Inr selector \<Rightarrow> (Returned (selector f1), Some (Rewind f1))))
               else
                 (Raised (pyxcdf_XCDFException
                            (Text (''Invalid event number '' @ decimal (unat id)))),
                  Some f1)))"

text \<open>
  \<^verbatim>\<open>XCDFFile_addField\<close>. The result is the object the function returns (\<^verbatim>\<open>NULL\<close>
  when it fails), the error indicator it leaves, and the file. The function converts
  its arguments without testing the error indicator, so an exception set by a
  conversion stays pending while the function goes on with the value the conversion
  returned:

  \<^item> the type code is converted to a \<^verbatim>\<open>long\<close> and cast to the enumeration, which keeps
    its low 32 bits;
  \<^item> the parent name, or the empty string, is copied with \<^verbatim>\<open>strcpy\<close> into a buffer of
    80 bytes; a name of 80 bytes or more is written past the end of the buffer, the
    behaviour is undefined and the result is \<open>None\<close>;
  \<^item> \<^verbatim>\<open>switch (ftype)\<close> tests the three enumerators in the order of the source and
    converts the resolution as the field's type asks; \<^verbatim>\<open>default\<close> returns \<^verbatim>\<open>False\<close>;
  \<^item> an exception of the core is caught and set as \<^verbatim>\<open>pyxcdf.XCDFException\<close> with its
    message, and the function returns \<^verbatim>\<open>NULL\<close>; otherwise it returns \<^verbatim>\<open>True\<close>.
\<close>

definition static_cast_XCDFFieldType :: "int \<Rightarrow> 32 word" where
  "static_cast_XCDFFieldType x = word_of_int x"

definition XCDFFile_addField ::
  "('v, 'o) collaborators \<Rightarrow> 'v XCDFFile option \<Rightarrow> string \<Rightarrow> PyNumber \<Rightarrow> PyNumber
     \<Rightarrow> string option \<Rightarrow> ('o PyObject \<times> py_exception option \<times> 'v XCDFFile option) option" where
  "XCDFFile_addField env self name type reso pnam =
     (case self of
        None \<Rightarrow> Some (NULL, Some (PyExc_AttributeError ''file: not open''), None)
      | Some f \<Rightarrow>
          (let nameStr = PyBytes_AsString name;
               ftype = static_cast_XCDFFieldType (PyLong_AsLong type);
               err = PyLong_AsLong_error type;
               parent = (case pnam of Some s \<Rightarrow> PyBytes_AsString s | None \<Rightarrow> [])
           in if 80 \<le> length parent then None
              else if ftype = XCDFFieldType_value env XCDF_UNSIGNED_INTEGER then
                (let res = PyLong_AsUnsignedLongLongMask reso;
                     err = PyErr_after err (PyLong_AsUnsignedLongLongMask_error reso)
                 in case AllocateUnsignedIntegerField f nameStr res parent of
                      Inl e \<Rightarrow> Some (NULL, Some (pyxcdf_XCDFException (GetMessage e)), Some f)
                    | Inr f' \<Rightarrow> Some (Py_True, err, Some f'))
              else if ftype = XCDFFieldType_value env XCDF_SIGNED_INTEGER then
                (let res = word_of_int (PyLong_AsLong reso);
                     err = PyErr_after err (PyLong_AsLong_error reso)
                 in case AllocateSignedIntegerField f nameStr res parent of
                      Inl e \<Rightarrow> Some (NULL, Some (pyxcdf_XCDFException (GetMessage e)), Some f)
                    | Inr f' \<Rightarrow> Some (Py_True, err, Some f'))
              else if ftype = XCDFFieldType_value env XCDF_FLOATING_POINT then
                (let res = PyFloat_AsDouble reso;
                     err = PyErr_after err (PyFloat_AsDouble_error reso)
                 in case AllocateFloatingPointField f nameStr res parent of
                      Inl e \<Rightarrow> Some (NULL, Some (pyxcdf_XCDFException (GetMessage e)), Some f)
                    | Inr f' \<Rightarrow> Some (Py_True, err, Some f'))
              else Some (Py_False, err, Some f)))"

section \<open>Notions used in the statements\<close>

text \<open>
  \<^verbatim>\<open>PyTuple_GetItem\<close> of the C API, used to state what a slot of a built tuple holds:
  \<^verbatim>\<open>NULL\<close> for an index out of range or an object that is not a tuple.
\<close>

definition PyTuple_GetItem :: "'o PyObject \<Rightarrow> int \<Rightarrow> 'o PyObject" where
  "PyTuple_GetItem p pos =
     (case p of
        PyTuple xs \<Rightarrow> if 0 \<le> pos \<and> pos < int (length xs) then xs ! nat pos else NULL
      | _ \<Rightarrow> NULL)"

text \<open>
  What \<^verbatim>\<open>TupleSetter::operator()\<close> stores for a field: the converted field when it
  holds values, \<^verbatim>\<open>None\<close> when it holds none.
\<close>

definition field_item :: "('v XCDFField \<Rightarrow> 'o) \<Rightarrow> 'v XCDFField \<Rightarrow> 'o PyObject" where
  "field_item conv field = (if 0 < GetSize field then Py_Object (conv field) else Py_None)"

text \<open>
  Notions used to state what the iterator does. \<open>at_event f j\<close> is the file with record
  \<open>j\<close> loaded. \<open>surface\<close> is the object \<^verbatim>\<open>iternext\<close> returns for the loaded record:
  the selector's tuple when the iterator has a selector, the tuple of the
  \<^verbatim>\<open>TupleSetter\<close> otherwise. \<open>consulted\<close> is the iterator after \<^verbatim>\<open>SelectEvent\<close> has
  been called on the loaded record.
\<close>

definition at_event :: "'v XCDFFile \<Rightarrow> nat \<Rightarrow> 'v XCDFFile" where
  "at_event f j = f\<lparr>eventsRead := Suc j\<rparr>"

definition surface ::
  "('v, 'o) collaborators \<Rightarrow> ('v, 'o) XCDFRecordIterator \<Rightarrow> 'v XCDFFile \<Rightarrow> 'o PyObject" where
  "surface env p f =
     (case selectField p of
        Some selector \<Rightarrow> selector f
      | None \<Rightarrow> GetTuple (ApplyFieldVisitor (TupleSetter_call (xcdf2python env))
                            (TupleSetter (GetNFields f)) f))"

definition consulted ::
  "('v, 'o) XCDFRecordIterator \<Rightarrow> 'v XCDFFile \<Rightarrow> ('v, 'o) XCDFRecordIterator" where
  "consulted p f1 =
     p\<lparr>iCurrent := int_of_uint64 (GetCurrentEventNumber f1),
       selectCalls := selectCalls p @ [GetCurrentEventNumber f1]\<rparr>"

text \<open>
  Notions used to state what \<^verbatim>\<open>addField\<close> does: the enumerator its \<^verbatim>\<open>switch\<close>
  selects for a narrowed type code, if any; the resolution it passes to the core for a
  field type, and the exception that conversion sets, if any; and the parent name it
  passes.
\<close>

definition recognised :: "('v, 'o) collaborators \<Rightarrow> 32 word \<Rightarrow> XCDFFieldType option" where
  "recognised env ftype =
     (if ftype = XCDFFieldType_value env XCDF_UNSIGNED_INTEGER then Some XCDF_UNSIGNED_INTEGER
      else if ftype = XCDFFieldType_value env XCDF_SIGNED_INTEGER then Some XCDF_SIGNED_INTEGER
      else if ftype = XCDFFieldType_value env XCDF_FLOATING_POINT then Some XCDF_FLOATING_POINT
      else None)"

definition resolution_argument :: "XCDFFieldType \<Rightarrow> PyNumber \<Rightarrow> resolution" where
  "resolution_argument ty reso =
     (case ty of
        XCDF_UNSIGNED_INTEGER \<Rightarrow> UnsignedResolution (PyLong_AsUnsignedLongLongMask reso)
      | XCDF_SIGNED_INTEGER \<Rightarrow> SignedResolution (word_of_int (PyLong_AsLong reso))
      | XCDF_FLOATING_POINT \<Rightarrow> FloatingPointResolution (PyFloat_AsDouble reso))"

definition resolution_error :: "XCDFFieldType \<Rightarrow> PyNumber \<Rightarrow> py_exception option" where
  "resolution_error ty reso =
     (case ty of
        XCDF_UNSIGNED_INTEGER \<Rightarrow> PyLong_AsUnsignedLongLongMask_error reso
      | XCDF_SIGNED_INTEGER \<Rightarrow> PyLong_AsLong_error reso
      | XCDF_FLOATING_POINT \<Rightarrow> PyFloat_AsDouble_error reso)"

definition parent_argument :: "string option \<Rightarrow> string" where
  "parent_argument pnam = (case pnam of Some s \<Rightarrow> PyBytes_AsString s | None \<Rightarrow> [])"

section \<open>Example files\<close>

text \<open>
  The scenario of the specification's section 8: a scalar unsigned field \<^verbatim>\<open>nhit\<close> and a
  vector field \<^verbatim>\<open>pe\<close> counted by it, with three records; the second record has
  \<^verbatim>\<open>nhit = 0\<close>, so its \<^verbatim>\<open>pe\<close> holds no value. Values are integers here.
\<close>

definition example_schema :: "XCDFFieldDescriptor list" where
  "example_schema =
     [\<lparr>d_name = ''nhit'', d_type = XCDF_UNSIGNED_INTEGER,
       d_resolution = UnsignedResolution 1, d_parentName = ''''\<rparr>,
      \<lparr>d_name = ''pe'', d_type = XCDF_SIGNED_INTEGER,
       d_resolution = SignedResolution 1, d_parentName = ''nhit''\<rparr>]"

definition example_event :: "int list \<Rightarrow> string \<Rightarrow> int list" where
  "example_event pe = (\<lambda>_. [])(''nhit'' := [int (length pe)], ''pe'' := pe)"

definition example_file :: "int XCDFFile" where
  "example_file =
     \<lparr>openMode = OpenForRead, fieldList = example_schema,
      eventList = [example_event [11, 22, 33], example_event [], example_event [5, 6]],
      eventsRead = 0, corruptFrom = None\<rparr>"

text \<open>
  Example collaborators: \<^verbatim>\<open>xcdf2python\<close> keeps the list of values; a selector extracts
  one declared field by its name; the expressions understood are \<^verbatim>\<open>true\<close> and
  \<^verbatim>\<open>nhit > 0\<close>; the enumerators are numbered 0, 1, 2.
\<close>

definition example_env :: "(int, int list) collaborators" where
  "example_env =
     \<lparr>xcdf2python = GetData,
      FieldsByNameSelector =
        (\<lambda>names f. if names \<in> set (map d_name (fieldList f))
                    then Inr (\<lambda>g. PyTuple [Py_Object (currentEvent g names)])
                    else Inl SchemaError),
      EventSelectExpression =
        (\<lambda>expression f.
           if expression = ''true'' then Inr (\<lambda>g. True)
           else if expression = ''nhit > 0'' then Inr (\<lambda>g. currentEvent g ''nhit'' \<noteq> [0])
           else Inl SchemaError),
      XCDFFieldType_value =
        (\<lambda>t. case t of XCDF_UNSIGNED_INTEGER \<Rightarrow> 0 | XCDF_SIGNED_INTEGER \<Rightarrow> 1
                      | XCDF_FLOATING_POINT \<Rightarrow> 2)\<rparr>"

text \<open>
  The iterator that \<^verbatim>\<open>records(select="nhit > 0")\<close> makes for the example file.
\<close>

definition example_iterator :: "(int, int list) XCDFRecordIterator" where
  "example_iterator =
     \<lparr>iCurrent = 0, iTotal = 3, selectField = None,
      selectEvent = (\<lambda>g. currentEvent g ''nhit'' \<noteq> [0]), selectCalls = []\<rparr>"

text \<open>A file just opened for writing: no field declared, no record committed.\<close>

definition new_file :: "int XCDFFile" where
  "new_file =
     \<lparr>openMode = OpenForWrite, fieldList = [], eventList = [], eventsRead = 0, corruptFrom = None\<rparr>"

text \<open>
  A file of \<open>2^31\<close> records, and the iterator \<^verbatim>\<open>records()\<close> makes for it: the record
  count does not fit \<^verbatim>\<open>iTotal_\<close>, which becomes negative.
\<close>

definition huge_file :: "int XCDFFile" where
  "huge_file =
     \<lparr>openMode = OpenForRead, fieldList = example_schema,
      eventList = replicate (2 ^ 31) (example_event [7]),
      eventsRead = 0, corruptFrom = None\<rparr>"

definition huge_iterator :: "(int, int list) XCDFRecordIterator" where
  "huge_iterator =
     \<lparr>iCurrent = 0, iTotal = - 2147483648, selectField = None,
      selectEvent = (\<lambda>g. True), selectCalls = []\<rparr>"

section \<open>Lemmas\<close>

subsection \<open>The tuple setter\<close>

lemma smod_nonneg_less: "0 \<le> a \<Longrightarrow> a < b \<Longrightarrow> (a::int) smod b = a"
  by (simp add: smod_int_alt_def sgn_if)

lemma TupleSetter_call_step:
  assumes "length pre < n"
  shows "TupleSetter_call conv
     \<lparr>m_nfields = int n, m_ifield = int (length pre),
      m_tuple = PyTuple (map (field_item conv) pre @ NULL # rest)\<rparr> x =
   \<lparr>m_nfields = int n, m_ifield = int (Suc (length pre)),
    m_tuple = PyTuple (map (field_item conv) pre @ field_item conv x # rest)\<rparr>"
proof -
  have idx: "int (length pre) smod int n = int (length pre)"
    using assms by (intro smod_nonneg_less) simp_all
  have upd: "(map (field_item conv) pre @ NULL # rest)[length pre := y] =
             map (field_item conv) pre @ y # rest" for y
    by (simp add: list_update_append)
  show ?thesis
    unfolding TupleSetter_call_def Let_def PyTuple_SetItem_def
    by (simp add: idx upd field_item_def)
qed

lemma TupleSetter_visit_all:
  "n = length pre + length xs \<Longrightarrow>
   foldl (TupleSetter_call conv)
     \<lparr>m_nfields = int n, m_ifield = int (length pre),
      m_tuple = PyTuple (map (field_item conv) pre @ replicate (length xs) NULL)\<rparr> xs =
   \<lparr>m_nfields = int n, m_ifield = int n,
    m_tuple = PyTuple (map (field_item conv) (pre @ xs))\<rparr>"
proof (induction xs arbitrary: pre)
  case Nil
  then show ?case by simp
next
  case (Cons x xs)
  have lt: "length pre < n"
    using Cons.prems by simp
  have n: "n = length (pre @ [x]) + length xs"
    using Cons.prems by simp
  have "foldl (TupleSetter_call conv)
     \<lparr>m_nfields = int n, m_ifield = int (length pre),
      m_tuple = PyTuple (map (field_item conv) pre @ replicate (length (x # xs)) NULL)\<rparr> (x # xs) =
     foldl (TupleSetter_call conv)
     \<lparr>m_nfields = int n, m_ifield = int (length (pre @ [x])),
      m_tuple = PyTuple (map (field_item conv) (pre @ [x]) @ replicate (length xs) NULL)\<rparr> xs"
    using TupleSetter_call_step [OF lt, of conv "replicate (length xs) NULL" x] by simp
  also have "\<dots> = \<lparr>m_nfields = int n, m_ifield = int n,
    m_tuple = PyTuple (map (field_item conv) ((pre @ [x]) @ xs))\<rparr>"
    by (rule Cons.IH [OF n])
  finally show ?case by simp
qed

lemma length_current_fields: "length (current_fields f) = length (fieldList f)"
  by (simp add: current_fields_def)

lemma tuple_of_record:
  "GetTuple (ApplyFieldVisitor (TupleSetter_call conv) (TupleSetter (GetNFields f)) f) =
     PyTuple (map (field_item conv) (current_fields f))"
  unfolding ApplyFieldVisitor_def GetTuple_def TupleSetter_def GetNFields_def PyTuple_New_def
  using TupleSetter_visit_all [of "length (fieldList f)" "[]" "current_fields f" conv]
  by (simp add: length_current_fields)

lemma foldl_snoc_map: "foldl (\<lambda>acc x. acc @ [g x]) acc xs = acc @ map g xs"
  by (induction xs arbitrary: acc) simp_all

subsection \<open>One call of the iterator\<close>

lemma iternext_unfold:
  "XCDFRecordIterator_iternext env p f =
     (if \<not> iCurrent p < iTotal p then (Raised PyExc_StopIteration, p, Rewind f)
      else if length (eventList f) \<le> eventsRead f then (Raised PyExc_StopIteration, p, Rewind f)
      else if unreadable f (eventsRead f)
        then (Raised (pyxcdf_XCDFException (GetMessage CorruptBlockError)), p, f)
      else if int_of_uint64 (int (eventsRead f)) < 0
        then (Raised PyExc_StopIteration, p\<lparr>iCurrent := int_of_uint64 (int (eventsRead f))\<rparr>,
              at_event f (eventsRead f))
      else if \<not> selectEvent p (at_event f (eventsRead f))
        then XCDFRecordIterator_iternext env (consulted p (at_event f (eventsRead f)))
               (at_event f (eventsRead f))
      else (Returned (surface env p (at_event f (eventsRead f))),
            consulted p (at_event f (eventsRead f)), at_event f (eventsRead f)))"
  apply (subst XCDFRecordIterator_iternext.simps)
  apply (simp add: Read_def Let_def at_event_def surface_def consulted_def GetCurrentEventNumber_def
      split: option.splits)
  done

lemma at_event_simps [simp]:
  "at_event (at_event f k) j = at_event f j"
  "eventList (at_event f j) = eventList f"
  "eventsRead (at_event f j) = Suc j"
  "corruptFrom (at_event f j) = corruptFrom f"
  "fieldList (at_event f j) = fieldList f"
  "unreadable (at_event f k) j = unreadable f j"
  by (simp_all add: at_event_def unreadable_def)

lemma consulted_simps [simp]:
  "selectEvent (consulted p f1) = selectEvent p"
  "selectField (consulted p f1) = selectField p"
  "iTotal (consulted p f1) = iTotal p"
  "iCurrent (consulted p f1) = int_of_uint64 (GetCurrentEventNumber f1)"
  "selectCalls (consulted p f1) = selectCalls p @ [GetCurrentEventNumber f1]"
  "surface env (consulted p f1) = surface env p"
  by (simp_all add: consulted_def surface_def fun_eq_iff)

lemma GetCurrentEventNumber_at [simp]: "GetCurrentEventNumber (at_event f j) = int j"
  by (simp add: GetCurrentEventNumber_def)

lemma surface_cong: "selectField p1 = selectField p \<Longrightarrow> surface env p1 = surface env p"
  by (simp add: surface_def fun_eq_iff)

lemma int_of_uint64_small: "n < 2 ^ 31 \<Longrightarrow> int_of_uint64 (int n) = int n"
  unfolding int_of_uint64_def
  by (simp add: signed_of_nat signed_take_bit_int_eq_self_iff)

text \<open>A call of \<^verbatim>\<open>iternext\<close> that returns an object.\<close>

lemma iternext_Returned:
  "XCDFRecordIterator_iternext env p f = (Returned t, p', f') \<Longrightarrow>
     \<exists>j. eventsRead f \<le> j \<and> j < length (eventList f) \<and> f' = at_event f j \<and>
         t = surface env p f' \<and> selectEvent p f' \<and>
         (\<forall>i. eventsRead f \<le> i \<and> i < j \<longrightarrow> \<not> selectEvent p (at_event f i)) \<and>
         selectCalls p' = selectCalls p @ map int [eventsRead f ..< Suc j] \<and>
         iCurrent p' = int_of_uint64 (int j) \<and> iTotal p' = iTotal p \<and>
         selectEvent p' = selectEvent p \<and> selectField p' = selectField p"
proof (induction "length (eventList f) - eventsRead f" arbitrary: p f rule: less_induct)
  case less
  let ?k = "eventsRead f"
  let ?f1 = "at_event f ?k"
  from less.prems have guard: "iCurrent p < iTotal p" "?k < length (eventList f)"
       "\<not> unreadable f ?k" "\<not> int_of_uint64 (int ?k) < 0"
    by (subst (asm) iternext_unfold, simp split: if_splits)+
  show ?case
  proof (cases "selectEvent p ?f1")
    case True
    with less.prems guard have "t = surface env p ?f1" "p' = consulted p ?f1" "f' = ?f1"
      by (subst (asm) iternext_unfold, simp)+
    with True guard show ?thesis
      by (intro exI [of _ ?k]) auto
  next
    case False
    with less.prems guard
    have rec: "XCDFRecordIterator_iternext env (consulted p ?f1) ?f1 = (Returned t, p', f')"
      by (subst (asm) iternext_unfold) simp
    have "length (eventList ?f1) - eventsRead ?f1 < length (eventList f) - ?k"
      using guard by simp
    from less.hyps [OF this rec] obtain j where j:
      "Suc ?k \<le> j" "j < length (eventList f)" "f' = at_event f j"
      "t = surface env p f'" "selectEvent p f'"
      "\<forall>i. Suc ?k \<le> i \<and> i < j \<longrightarrow> \<not> selectEvent p (at_event f i)"
      "selectCalls p' = (selectCalls p @ [int ?k]) @ map int [Suc ?k ..< Suc j]"
      "iCurrent p' = int_of_uint64 (int j)" "iTotal p' = iTotal p"
      "selectEvent p' = selectEvent p" "selectField p' = selectField p"
      by auto
    have "\<forall>i. ?k \<le> i \<and> i < j \<longrightarrow> \<not> selectEvent p (at_event f i)"
      using j(6) False by (metis Suc_leI le_neq_implies_less)
    moreover have "selectCalls p' = selectCalls p @ map int [?k ..< Suc j]"
      using j(1,7) by (simp add: upt_conv_Cons)
    ultimately show ?thesis
      using j by (intro exI [of _ j]) simp
  qed
qed

text \<open>A call of \<^verbatim>\<open>iternext\<close> that raises.\<close>

lemma iternext_Raised:
  "XCDFRecordIterator_iternext env p f = (Raised e, p', f') \<Longrightarrow>
     \<exists>m. eventsRead f \<le> m \<and> (m = eventsRead f \<or> m \<le> length (eventList f)) \<and>
         selectCalls p' = selectCalls p @ map int [eventsRead f ..< m] \<and>
         (\<forall>i. eventsRead f \<le> i \<and> i < m \<longrightarrow> \<not> selectEvent p (at_event f i)) \<and>
         (e = PyExc_StopIteration \<or>
          e = pyxcdf_XCDFException (GetMessage CorruptBlockError) \<and> corruptFrom f \<noteq> None)"
proof (induction "length (eventList f) - eventsRead f" arbitrary: p f rule: less_induct)
  case less
  let ?k = "eventsRead f"
  let ?f1 = "at_event f ?k"
  let ?go = "iCurrent p < iTotal p \<and> ?k < length (eventList f) \<and> \<not> unreadable f ?k \<and>
             \<not> int_of_uint64 (int ?k) < 0 \<and> \<not> selectEvent p ?f1"
  show ?case
  proof (cases ?go)
    case True
    with less.prems
    have rec: "XCDFRecordIterator_iternext env (consulted p ?f1) ?f1 = (Raised e, p', f')"
      by (subst (asm) iternext_unfold) simp
    have "length (eventList ?f1) - eventsRead ?f1 < length (eventList f) - ?k"
      using True by auto
    from less.hyps [OF this rec] obtain m where m:
      "Suc ?k \<le> m" "m = Suc ?k \<or> m \<le> length (eventList f)"
      "selectCalls p' = (selectCalls p @ [int ?k]) @ map int [Suc ?k ..< m]"
      "\<forall>i. Suc ?k \<le> i \<and> i < m \<longrightarrow> \<not> selectEvent p (at_event f i)"
      "e = PyExc_StopIteration \<or>
       e = pyxcdf_XCDFException (GetMessage CorruptBlockError) \<and> corruptFrom f \<noteq> None"
      by force
    have "\<forall>i. ?k \<le> i \<and> i < m \<longrightarrow> \<not> selectEvent p (at_event f i)"
      using m(4) True by (metis Suc_leI le_neq_implies_less)
    moreover have "selectCalls p' = selectCalls p @ map int [?k ..< m]"
      using m(1,3) by (simp add: upt_conv_Cons)
    moreover have "m \<le> length (eventList f)"
      using m(2) True by auto
    ultimately show ?thesis
      using m by (intro exI [of _ m]) simp
  next
    case False
    with less.prems
    have "selectCalls p' = selectCalls p"
      and "e = PyExc_StopIteration \<or>
           e = pyxcdf_XCDFException (GetMessage CorruptBlockError) \<and> corruptFrom f \<noteq> None"
      by (subst (asm) iternext_unfold, auto simp: unreadable_def split: if_splits option.splits)+
    then show ?thesis
      by (intro exI [of _ ?k]) auto
  qed
qed

subsection \<open>The iteration protocol\<close>

text \<open>
  The protocol of a Python \<^verbatim>\<open>for\<close> loop over the iterator: \<^verbatim>\<open>tp_iternext\<close> is called
  until it returns \<^verbatim>\<open>NULL\<close>. The result is the list of the objects it returned, the
  exception that ended the loop, and the iterator and the file as the loop leaves them.
\<close>

function iterate_records ::
  "('v, 'o) collaborators \<Rightarrow> ('v, 'o) XCDFRecordIterator \<Rightarrow> 'v XCDFFile
     \<Rightarrow> 'o PyObject list \<times> py_exception \<times> ('v, 'o) XCDFRecordIterator \<times> 'v XCDFFile" where
  "iterate_records env p f =
     (case XCDFRecordIterator_iternext env p f of
        (Returned item, p', f') \<Rightarrow>
          (case iterate_records env p' f' of (items, stop) \<Rightarrow> (item # items, stop))
      | (Raised e, p', f') \<Rightarrow> ([], e, p', f'))"
  by pat_completeness auto
termination
proof (relation "measure (\<lambda>(env, p, f). length (eventList f) - eventsRead f)")
  show "wf (measure (\<lambda>(env, p, f). length (eventList f) - eventsRead f))"
    by simp
next
  fix env :: "('v, 'o) collaborators" and p :: "('v, 'o) XCDFRecordIterator"
    and f :: "'v XCDFFile" and x xa y x1 x2 ya
  assume "(x, y) = XCDFRecordIterator_iternext env p f" "x = Returned x1" "(xa, ya) = y"
  then have "XCDFRecordIterator_iternext env p f = (Returned x1, xa, ya)"
    by simp
  from iternext_Returned [OF this]
  show "((env, xa, ya), env, p, f) \<in> measure (\<lambda>(env, p, f). length (eventList f) - eventsRead f)"
    by auto
qed

declare iterate_records.simps [simp del]

lemma filter_upt_last:
  assumes "k \<le> j" "P j" "\<forall>i. k \<le> i \<and> i < j \<longrightarrow> \<not> P i"
  shows "filter P [k ..< Suc j] = [j]"
proof -
  have "filter P [k ..< j] = []"
    using assms(3) by (auto simp: filter_empty_conv)
  then show ?thesis
    using assms(1,2) by simp
qed

lemma filter_upt_none:
  assumes "\<forall>i. k \<le> i \<and> i < m \<longrightarrow> \<not> P i"
  shows "filter P [k ..< m] = []"
  using assms by (auto simp: filter_empty_conv)

text \<open>A whole loop: the records consulted and the objects returned.\<close>

lemma iterate_records_spec:
  "iterate_records env p f = (items, e, p', f') \<Longrightarrow>
     \<exists>m. eventsRead f \<le> m \<and> (m = eventsRead f \<or> m \<le> length (eventList f)) \<and>
         selectCalls p' = selectCalls p @ map int [eventsRead f ..< m] \<and>
         items = map (\<lambda>j. surface env p (at_event f j))
                   (filter (\<lambda>j. selectEvent p (at_event f j)) [eventsRead f ..< m]) \<and>
         (e = PyExc_StopIteration \<or>
          e = pyxcdf_XCDFException (GetMessage CorruptBlockError) \<and> corruptFrom f \<noteq> None)"
proof (induction "length (eventList f) - eventsRead f" arbitrary: p f items rule: less_induct)
  case less
  let ?k = "eventsRead f"
  let ?P = "\<lambda>j. selectEvent p (at_event f j)"
  obtain r p1 f1 where step: "XCDFRecordIterator_iternext env p f = (r, p1, f1)"
    by (cases "XCDFRecordIterator_iternext env p f") auto
  show ?case
  proof (cases r)
    case (Returned item)
    obtain items1 where run1: "iterate_records env p1 f1 = (items1, e, p', f')"
      and items: "items = item # items1"
      using less.prems step Returned
      by (subst (asm) iterate_records.simps) (auto split: prod.splits)
    from iternext_Returned [OF step [unfolded Returned]] obtain j where j:
      "?k \<le> j" "j < length (eventList f)" "f1 = at_event f j"
      "item = surface env p f1" "selectEvent p f1"
      "\<forall>i. ?k \<le> i \<and> i < j \<longrightarrow> \<not> ?P i"
      "selectCalls p1 = selectCalls p @ map int [?k ..< Suc j]"
      "selectEvent p1 = selectEvent p" "selectField p1 = selectField p"
      by auto
    have "length (eventList f1) - eventsRead f1 < length (eventList f) - ?k"
      using j(1,2,3) by auto
    from less.hyps [OF this run1] obtain m where m:
      "Suc j \<le> m" "m = Suc j \<or> m \<le> length (eventList f)"
      "selectCalls p' = selectCalls p1 @ map int [Suc j ..< m]"
      "items1 = map (\<lambda>i. surface env p1 (at_event f1 i))
                  (filter (\<lambda>i. selectEvent p1 (at_event f1 i)) [Suc j ..< m])"
      "e = PyExc_StopIteration \<or>
       e = pyxcdf_XCDFException (GetMessage CorruptBlockError) \<and> corruptFrom f \<noteq> None"
      using j(3) by force
    have split: "[?k ..< m] = [?k ..< Suc j] @ [Suc j ..< m]"
      using j(1) m(1) upt_add_eq_append [of ?k "Suc j" "m - Suc j"] by simp
    have first: "filter ?P [?k ..< Suc j] = [j]"
      using j(1,3,5,6) by (intro filter_upt_last) auto
    have "items = map (\<lambda>i. surface env p (at_event f i)) (filter ?P [?k ..< m])"
      unfolding split using first items j(3,4,8) m(4) surface_cong [OF j(9)] by simp
    moreover have "selectCalls p' = selectCalls p @ map int [?k ..< m]"
      unfolding split using m(3) j(7) by simp
    moreover have "m \<le> length (eventList f)"
      using m(2) j(2) by auto
    ultimately show ?thesis
      using m(1,5) j(1) by (intro exI [of _ m]) simp
  next
    case (Raised e1)
    have res: "items = []" "e = e1" "p' = p1" "f' = f1"
      using less.prems step Raised
      by (subst (asm) iterate_records.simps, simp)+
    from iternext_Raised [OF step [unfolded Raised]] obtain m where m:
      "?k \<le> m" "m = ?k \<or> m \<le> length (eventList f)"
      "selectCalls p1 = selectCalls p @ map int [?k ..< m]"
      "\<forall>i. ?k \<le> i \<and> i < m \<longrightarrow> \<not> ?P i"
      "e1 = PyExc_StopIteration \<or>
       e1 = pyxcdf_XCDFException (GetMessage CorruptBlockError) \<and> corruptFrom f \<noteq> None"
      by auto
    have "filter ?P [?k ..< m] = []"
      using m(4) by (rule filter_upt_none)
    then show ?thesis
      using res m by (intro exI [of _ m]) simp
  qed
qed

subsection \<open>Iteration over an intact file whose record count fits the counters\<close>

lemma Rewind_at_event [simp]: "Rewind (at_event f j) = Rewind f"
  by (simp add: Rewind_def at_event_def)

lemma upt_split_at: "k \<le> j \<Longrightarrow> j \<le> n \<Longrightarrow> [k ..< n] = [k ..< j] @ [j ..< n]"
  by (metis le_add_diff_inverse upt_add_eq_append)

lemma iternext_Raised_covers:
  assumes "iTotal p = int (length (eventList f))" and "length (eventList f) < 2 ^ 31"
    and "corruptFrom f = None" and "iCurrent p \<le> int (eventsRead f)"
    and "XCDFRecordIterator_iternext env p f = (Raised e, p', f')"
  shows "e = PyExc_StopIteration \<and> f' = Rewind f \<and>
         selectCalls p' = selectCalls p @ map int [eventsRead f ..< length (eventList f)] \<and>
         (\<forall>i. eventsRead f \<le> i \<and> i < length (eventList f) \<longrightarrow> \<not> selectEvent p (at_event f i))"
  using assms
proof (induction "length (eventList f) - eventsRead f" arbitrary: p f rule: less_induct)
  case less
  let ?k = "eventsRead f"
  let ?n = "length (eventList f)"
  let ?f1 = "at_event f ?k"
  have readable: "\<not> unreadable f i" for i
    using less.prems(3) by (simp add: unreadable_def)
  show ?case
  proof (cases "?k < ?n")
    case True
    then have cast: "int_of_uint64 (int ?k) = int ?k"
      using less.prems(2) by (intro int_of_uint64_small) simp
    have guard: "iCurrent p < iTotal p"
      using True less.prems(1,4) by simp
    have rejected: "\<not> selectEvent p ?f1"
      using less.prems(5) guard True readable cast
      by (subst (asm) iternext_unfold) (auto split: if_splits)
    then have rec: "XCDFRecordIterator_iternext env (consulted p ?f1) ?f1 = (Raised e, p', f')"
      using less.prems(5) guard True readable cast
      by (subst (asm) iternext_unfold) simp
    have less1: "length (eventList ?f1) - eventsRead ?f1 < ?n - ?k"
      using True by simp
    have IH: "e = PyExc_StopIteration \<and> f' = Rewind ?f1 \<and>
         selectCalls p' = selectCalls (consulted p ?f1) @ map int [eventsRead ?f1 ..< length (eventList ?f1)] \<and>
         (\<forall>i. eventsRead ?f1 \<le> i \<and> i < length (eventList ?f1) \<longrightarrow>
              \<not> selectEvent (consulted p ?f1) (at_event ?f1 i))"
      using less.prems(1,2,3) cast
      by (intro less.hyps [OF less1 _ _ _ _ rec]) simp_all
    have "\<forall>i. ?k \<le> i \<and> i < ?n \<longrightarrow> \<not> selectEvent p (at_event f i)"
      using IH rejected by (metis Suc_leI at_event_simps(1,2,3) consulted_simps(1) le_neq_implies_less)
    moreover have "selectCalls p' = selectCalls p @ map int [?k ..< ?n]"
      using IH True by (simp add: upt_conv_Cons)
    ultimately show ?thesis
      using IH by simp
  next
    case False
    then have "e = PyExc_StopIteration" "f' = Rewind f" "p' = p"
      using less.prems(5) by (subst (asm) iternext_unfold, simp split: if_splits)+
    then show ?thesis
      using False by auto
  qed
qed

lemma iterate_records_covers:
  assumes "iTotal p = int (length (eventList f))" and "length (eventList f) < 2 ^ 31"
    and "corruptFrom f = None" and "iCurrent p \<le> int (eventsRead f)"
    and "iterate_records env p f = (items, e, p', f')"
  shows "e = PyExc_StopIteration \<and> f' = Rewind f \<and>
         selectCalls p' = selectCalls p @ map int [eventsRead f ..< length (eventList f)] \<and>
         items = map (\<lambda>j. surface env p (at_event f j))
                   (filter (\<lambda>j. selectEvent p (at_event f j)) [eventsRead f ..< length (eventList f)])"
  using assms
proof (induction "length (eventList f) - eventsRead f" arbitrary: p f items rule: less_induct)
  case less
  let ?k = "eventsRead f"
  let ?n = "length (eventList f)"
  let ?P = "\<lambda>j. selectEvent p (at_event f j)"
  obtain r p1 f1 where step: "XCDFRecordIterator_iternext env p f = (r, p1, f1)"
    by (cases "XCDFRecordIterator_iternext env p f") auto
  show ?case
  proof (cases r)
    case (Returned item)
    obtain items1 where run1: "iterate_records env p1 f1 = (items1, e, p', f')"
      and items: "items = item # items1"
      using less.prems(5) step Returned
      by (subst (asm) iterate_records.simps) (auto split: prod.splits)
    from iternext_Returned [OF step [unfolded Returned]] obtain j where j:
      "?k \<le> j" "j < ?n" "f1 = at_event f j"
      "item = surface env p f1" "selectEvent p f1"
      "\<forall>i. ?k \<le> i \<and> i < j \<longrightarrow> \<not> ?P i"
      "selectCalls p1 = selectCalls p @ map int [?k ..< Suc j]"
      "iCurrent p1 = int_of_uint64 (int j)" "iTotal p1 = iTotal p"
      "selectEvent p1 = selectEvent p" "selectField p1 = selectField p"
      by auto
    have cast: "int_of_uint64 (int j) = int j"
      using j(2) less.prems(2) by (intro int_of_uint64_small) simp
    have less1: "length (eventList f1) - eventsRead f1 < ?n - ?k"
      using j(1,2,3) by auto
    have IH: "e = PyExc_StopIteration \<and> f' = Rewind f1 \<and>
         selectCalls p' = selectCalls p1 @ map int [eventsRead f1 ..< length (eventList f1)] \<and>
         items1 = map (\<lambda>i. surface env p1 (at_event f1 i))
                   (filter (\<lambda>i. selectEvent p1 (at_event f1 i)) [eventsRead f1 ..< length (eventList f1)])"
      using less.prems(1,2,3) j(3,8,9) cast
      by (intro less.hyps [OF less1 _ _ _ _ run1]) simp_all
    have split: "[?k ..< ?n] = [?k ..< Suc j] @ [Suc j ..< ?n]"
      using j(1,2) by (intro upt_split_at) simp_all
    have first: "filter ?P [?k ..< Suc j] = [j]"
      using j(1,3,5,6) by (intro filter_upt_last) auto
    have "items = map (\<lambda>i. surface env p (at_event f i)) (filter ?P [?k ..< ?n])"
      unfolding split using first items j(3,4,10) IH surface_cong [OF j(11)] by simp
    moreover have "selectCalls p' = selectCalls p @ map int [?k ..< ?n]"
      unfolding split using IH j(3,7) by simp
    ultimately show ?thesis
      using IH j(3) by simp
  next
    case (Raised e1)
    have res: "items = []" "e = e1" "p' = p1" "f' = f1"
      using less.prems(5) step Raised
      by (subst (asm) iterate_records.simps, simp)+
    from iternext_Raised_covers [OF less.prems(1-4) step [unfolded Raised]]
    have cov: "e1 = PyExc_StopIteration" "f1 = Rewind f"
      "selectCalls p1 = selectCalls p @ map int [?k ..< ?n]"
      "\<forall>i. ?k \<le> i \<and> i < ?n \<longrightarrow> \<not> ?P i"
      by auto
    have "filter ?P [?k ..< ?n] = []"
      using cov(4) by (rule filter_upt_none)
    then show ?thesis
      using res cov by simp
  qed
qed

subsection \<open>The example file\<close>

lemma example_records:
  "XCDFRecord_iterator example_env (Some example_file) (Some ''nhit > 0'') None =
     Returned example_iterator"
  by (simp add: XCDFRecord_iterator_def example_env_def example_iterator_def GetEventCount_def
      example_file_def int_of_uint64_def)

lemma example_file_simps [simp]:
  "eventsRead example_file = 0"
  "corruptFrom example_file = None"
  "length (eventList example_file) = 3"
  "fieldList example_file = example_schema"
  by (simp_all add: example_file_def)

lemma example_current [simp]:
  "currentEvent (at_event example_file 0) = example_event [11, 22, 33]"
  "currentEvent (at_event example_file (Suc 0)) = example_event []"
  "currentEvent (at_event example_file (Suc (Suc 0))) = example_event [5, 6]"
  by (simp_all add: currentEvent_def at_event_def example_file_def)

lemma upt_0_3: "[0 ..< 3] = [0, Suc 0, Suc (Suc 0)]"
  by code_simp

lemma map_int_upt_0_3: "map int [0 ..< 3] = [0, 1, 2]"
  by (simp add: upt_0_3)

lemma example_surface:
  "surface example_env example_iterator (at_event example_file j) =
   PyTuple [field_item GetData (XCDFField ''nhit'' XCDF_UNSIGNED_INTEGER
              (currentEvent (at_event example_file j) ''nhit'')),
            field_item GetData (XCDFField ''pe'' XCDF_SIGNED_INTEGER
              (currentEvent (at_event example_file j) ''pe''))]"
  by (simp add: surface_def example_iterator_def example_env_def tuple_of_record
      current_fields_def example_schema_def)

lemma example_record:
  assumes "j < 3"
  shows "GetTuple (ApplyFieldVisitor (TupleSetter_call (xcdf2python example_env))
           (TupleSetter (GetNFields (at_event example_file j))) (at_event example_file j)) =
         PyTuple [field_item GetData (XCDFField ''nhit'' XCDF_UNSIGNED_INTEGER
                    ((eventList example_file ! j) ''nhit'')),
                  field_item GetData (XCDFField ''pe'' XCDF_SIGNED_INTEGER
                    ((eventList example_file ! j) ''pe''))]"
  using assms
  by (simp add: tuple_of_record current_fields_def example_schema_def example_env_def
      currentEvent_def)

lemma Rewind_example_file [simp]: "Rewind example_file = example_file"
  by (simp add: Rewind_def example_file_def)

lemma example_not_unreadable [simp]: "\<not> unreadable example_file j"
  by (simp add: unreadable_def)

subsection \<open>Random access\<close>

lemma getRecord_valid:
  assumes "unat (PyLong_AsUnsignedLongLongMask recordId) < length (eventList f)"
    and "\<not> unreadable f (unat (PyLong_AsUnsignedLongLongMask recordId))"
  shows "XCDFFile_getRecord env (Some f) recordId None =
     (Returned (GetTuple (ApplyFieldVisitor (TupleSetter_call (xcdf2python env))
        (TupleSetter (GetNFields (at_event f (unat (PyLong_AsUnsignedLongLongMask recordId)))))
        (at_event f (unat (PyLong_AsUnsignedLongLongMask recordId))))),
      Some (Rewind f))"
  using assms by (simp add: XCDFFile_getRecord_def Seek_def Rewind_def at_event_def Let_def)

lemma decimal_small: "n < 10 \<Longrightarrow> decimal n = [digit n]"
  by (subst decimal.simps) simp

lemma getRecord_Returned:
  assumes "XCDFFile_getRecord env (Some f) recordId fieldNames = (Returned t, self')"
  shows "unat (PyLong_AsUnsignedLongLongMask recordId) < length (eventList f) \<and>
         \<not> unreadable f (unat (PyLong_AsUnsignedLongLongMask recordId)) \<and>
         self' = Some (Rewind f)"
  using assms
  by (auto simp: XCDFFile_getRecord_def Seek_def Rewind_def Let_def
      split: if_splits sum.splits option.splits)

text \<open>
  For an intact, rewound file with fewer than \<open>2^31\<close> records, read without a selection
  (the expression \<^verbatim>\<open>true\<close> selects every record), the loop over \<^verbatim>\<open>records()\<close> returns
  one object per record, and \<^verbatim>\<open>getRecord(i)\<close> returns the \<open>i\<close>-th of them.
\<close>

lemma seek_agrees_with_iteration:
  assumes "XCDFRecord_iterator env (Some f) None None = Returned it"
    and "EventSelectExpression env ''true'' f = Inr (\<lambda>g. True)"
    and "eventsRead f = 0" and "corruptFrom f = None"
    and "length (eventList f) < 2 ^ 31" and "i < length (eventList f)"
  shows "length (fst (iterate_records env it f)) = length (eventList f) \<and>
         XCDFFile_getRecord env (Some f) (PyLong (int i)) None =
           (Returned (fst (iterate_records env it f) ! i), Some (Rewind f))"
proof -
  let ?n = "length (eventList f)"
  let ?r = "iterate_records env it f"
  have it: "it = \<lparr>iCurrent = 0, iTotal = int_of_uint64 (GetEventCount f), selectField = None,
                  selectEvent = (\<lambda>g. True), selectCalls = []\<rparr>"
    using assms(1,2) by (simp add: XCDFRecord_iterator_def)
  have total: "iTotal it = int ?n"
    using int_of_uint64_small [OF assms(5)] by (simp add: it GetEventCount_def)
  have cur: "iCurrent it \<le> int (eventsRead f)"
    by (simp add: it)
  have run: "?r = (fst ?r, fst (snd ?r), fst (snd (snd ?r)), snd (snd (snd ?r)))"
    by simp
  from iterate_records_covers [OF total assms(5,4) cur run]
  have "fst ?r = map (\<lambda>j. surface env it (at_event f j))
                   (filter (\<lambda>j. selectEvent it (at_event f j)) [eventsRead f ..< ?n])"
    by simp
  then have items: "fst ?r = map (\<lambda>j. surface env it (at_event f j)) [0 ..< ?n]"
    by (simp add: it assms(3))
  have id: "unat (PyLong_AsUnsignedLongLongMask (PyLong (int i))) = i"
  proof -
    have "i < 2 ^ 64"
      using assms(5,6) by (simp add: order_less_trans [of i "2 ^ 31"])
    then show ?thesis
      by (simp add: unat_of_nat take_bit_nat_eq_self)
  qed
  have "XCDFFile_getRecord env (Some f) (PyLong (int i)) None =
          (Returned (surface env it (at_event f i)), Some (Rewind f))"
    using getRecord_valid [of "PyLong (int i)" f env] assms(4,6)
    unfolding id by (simp add: surface_def it unreadable_def)
  then show ?thesis
    using items assms(6) by simp
qed

subsection \<open>Schema declaration\<close>

lemma addField_switch:
  "XCDFFile_addField env (Some f) name type reso pnam =
     (if 80 \<le> length (parent_argument pnam) then None
      else case recognised env (static_cast_XCDFFieldType (PyLong_AsLong type)) of
        None \<Rightarrow> Some (Py_False, PyLong_AsLong_error type, Some f)
      | Some ty \<Rightarrow>
          (case declareField f (PyBytes_AsString name) ty (resolution_argument ty reso)
                  (parent_argument pnam) of
             Inl e \<Rightarrow> Some (NULL, Some (pyxcdf_XCDFException (GetMessage e)), Some f)
           | Inr f' \<Rightarrow>
               Some (Py_True, PyErr_after (PyLong_AsLong_error type) (resolution_error ty reso),
                     Some f')))"
  by (simp add: XCDFFile_addField_def recognised_def resolution_argument_def resolution_error_def
      parent_argument_def AllocateUnsignedIntegerField_def AllocateSignedIntegerField_def
      AllocateFloatingPointField_def Let_def split: sum.split)




text \<open>
  A type code that fits a \<^verbatim>\<open>long\<close> and whose low 32 bits are none of the enumerators
  takes the \<^verbatim>\<open>default\<close> branch: the call returns \<^verbatim>\<open>False\<close>, sets no exception and
  leaves the file as it is. For a type code and a resolution that are converted
  without error, a successful allocation makes the call return \<^verbatim>\<open>True\<close> with no
  exception set.
\<close>

lemma addField_default:
  assumes "PyLong_AsLong_error type = None"
    and "recognised env (static_cast_XCDFFieldType (PyLong_AsLong type)) = None"
    and "length (parent_argument pnam) < 80"
  shows "XCDFFile_addField env (Some f) name type reso pnam = Some (Py_False, None, Some f)"
  using assms by (simp add: addField_switch)

lemma addField_True_on_success:
  assumes "PyLong_AsLong_error type = None"
    and "recognised env (static_cast_XCDFFieldType (PyLong_AsLong type)) = Some ty"
    and "resolution_error ty reso = None"
    and "length (parent_argument pnam) < 80"
    and "declareField f (PyBytes_AsString name) ty (resolution_argument ty reso)
           (parent_argument pnam) = Inr f'"
  shows "XCDFFile_addField env (Some f) name type reso pnam = Some (Py_True, None, Some f')"
  using assms by (simp add: addField_switch PyErr_after_def)

subsection \<open>Conversion of an int to a double\<close>

lemma bit_length_le: "m < 2 ^ n \<Longrightarrow> bit_length m \<le> n"
proof (induction m arbitrary: n rule: bit_length.induct)
  case (1 m)
  show ?case
  proof (cases "m \<le> 0")
    case True
    then show ?thesis by (simp add: bit_length.simps)
  next
    case False
    with 1(2) obtain k where n: "n = Suc k"
      by (cases n) auto
    with 1(2) have "m div 2 < 2 ^ k"
      by auto
    with 1(1) [OF False] have "bit_length (m div 2) \<le> k"
      by simp
    with False n show ?thesis
      by (simp add: bit_length.simps [of m])
  qed
qed

lemma nearest_double_exact: "m < 2 ^ 53 \<Longrightarrow> nearest_double m = m"
  using bit_length_le [of m 53] by (simp add: nearest_double_def)

text \<open>An int of at most 53 bits is converted exactly, and without error.\<close>

lemma PyFloat_AsDouble_exact:
  assumes "\<bar>i\<bar> < 2 ^ 53"
  shows "PyFloat_AsDouble (PyLong i) = of_int i" and "PyFloat_AsDouble_error (PyLong i) = None"
proof -
  have exact: "nearest_double \<bar>i\<bar> = \<bar>i\<bar>"
    using assms by (rule nearest_double_exact)
  have below: "\<not> 2 ^ 1024 \<le> \<bar>i\<bar>"
    using assms by simp
  have "sgn i * \<bar>i\<bar> = i"
    by (simp add: sgn_if)
  with exact below show "PyFloat_AsDouble (PyLong i) = of_int i"
    and "PyFloat_AsDouble_error (PyLong i) = None"
    by simp_all
qed

section \<open>The claims\<close>

text \<open>
  Claim C2, as amended. The record id is reduced modulo \<open>2^64\<close> before it is used.
  For every id whose reduction is at or beyond the record count, \<^verbatim>\<open>Seek\<close> gives false
  and leaves the file as it is, and \<^verbatim>\<open>getRecord\<close> raises \<^verbatim>\<open>pyxcdf.XCDFException\<close>
  with the text \<^verbatim>\<open>Invalid event number\<close> and the reduced id; it returns no object and
  leaves the read cursor where it was.
\<close>

theorem C2_out_of_range_raises:
  assumes "length (eventList f) \<le> unat (PyLong_AsUnsignedLongLongMask recordId)"
  shows "Seek f (PyLong_AsUnsignedLongLongMask recordId) = Inr (False, f) \<and>
         XCDFFile_getRecord env (Some f) recordId fieldNames =
           (Raised (pyxcdf_XCDFException
              (Text (''Invalid event number '' @
                     decimal (unat (PyLong_AsUnsignedLongLongMask recordId))))),
            Some f)"
proof -
  have seek: "Seek f (PyLong_AsUnsignedLongLongMask recordId) = Inr (False, f)"
    using assms by (simp add: Seek_def)
  then show ?thesis
    by (simp add: XCDFFile_getRecord_def)
qed

theorem C2_out_of_range_raises_witness:
  "length (eventList example_file) \<le> unat (PyLong_AsUnsignedLongLongMask (PyLong 3)) \<and>
   Seek example_file (PyLong_AsUnsignedLongLongMask (PyLong 3)) = Inr (False, example_file) \<and>
   XCDFFile_getRecord example_env (Some example_file) (PyLong 3) None =
     (Raised (pyxcdf_XCDFException (Text ''Invalid event number 3'')), Some example_file)"
proof -
  have pre: "length (eventList example_file) \<le> unat (PyLong_AsUnsignedLongLongMask (PyLong 3))"
    by simp
  show ?thesis
    using pre C2_out_of_range_raises [OF pre, of example_env None]
    by (simp add: decimal_small digit_def)
qed

text \<open>
  Claim C2 as stated fails: on the example file of three records, \<^verbatim>\<open>getRecord(3)\<close>
  raises an exception instead of returning false, and the negative id \<open>-2^64\<close> is
  reduced to 0, so that \<^verbatim>\<open>getRecord\<close> returns the first record.
\<close>

theorem C2_out_of_range_counterexample:
  "XCDFFile_getRecord example_env (Some example_file) (PyLong 3) None =
     (Raised (pyxcdf_XCDFException (Text ''Invalid event number 3'')), Some example_file) \<and>
   XCDFFile_getRecord example_env (Some example_file) (PyLong (- (2 ^ 64))) None =
     (Returned (PyTuple [Py_Object [3], Py_Object [11, 22, 33]]), Some example_file)"
proof
  show "XCDFFile_getRecord example_env (Some example_file) (PyLong 3) None =
     (Raised (pyxcdf_XCDFException (Text ''Invalid event number 3'')), Some example_file)"
    by (simp add: XCDFFile_getRecord_def Seek_def decimal_small digit_def)
  have id: "unat (PyLong_AsUnsignedLongLongMask (PyLong (- (2 ^ 64)))) = 0"
    by simp
  show "XCDFFile_getRecord example_env (Some example_file) (PyLong (- (2 ^ 64))) None =
     (Returned (PyTuple [Py_Object [3], Py_Object [11, 22, 33]]), Some example_file)"
    by (subst getRecord_valid)
       (simp_all only: id example_record Rewind_example_file example_not_unreadable,
        simp_all add: example_file_def example_event_def field_item_def GetSize_def)
qed

text \<open>
  Claim C3. Seeking to a valid record and reading it should give the same values as
  the iterator's object for that record. On the file of \<open>2^31\<close> records the two
  diverge: \<^verbatim>\<open>getRecord(0)\<close> returns the first record, while the loop over
  \<^verbatim>\<open>records()\<close> stops at once with \<^verbatim>\<open>StopIteration\<close> and returns no object, because
  \<^verbatim>\<open>iCurrent_ < iTotal_\<close> is false from the start.
\<close>

theorem C3_iterator_counter_overflow:
  "GetEventCount huge_file = 2 ^ 31 \<and>
   XCDFFile_getRecord example_env (Some huge_file) (PyLong 0) None =
     (Returned (PyTuple [Py_Object [1], Py_Object [7]]), Some huge_file) \<and>
   XCDFRecord_iterator example_env (Some huge_file) None None = Returned huge_iterator \<and>
   iterate_records example_env huge_iterator huge_file =
     ([], PyExc_StopIteration, huge_iterator, huge_file)"
proof (intro conjI)
  show count: "GetEventCount huge_file = 2 ^ 31"
    by (simp add: GetEventCount_def huge_file_def)
  have id: "unat (PyLong_AsUnsignedLongLongMask (PyLong 0)) = 0"
    by simp
  have valid: "unat (PyLong_AsUnsignedLongLongMask (PyLong 0)) < length (eventList huge_file)"
    unfolding id by (simp add: huge_file_def)
  have readable: "\<not> unreadable huge_file (unat (PyLong_AsUnsignedLongLongMask (PyLong 0)))"
    by (simp add: unreadable_def huge_file_def)
  have first: "currentEvent (at_event huge_file 0) = example_event [7]"
    by (simp add: currentEvent_def at_event_def huge_file_def)
  have rewound: "Rewind huge_file = huge_file"
    by (simp add: Rewind_def huge_file_def)
  show "XCDFFile_getRecord example_env (Some huge_file) (PyLong 0) None =
     (Returned (PyTuple [Py_Object [1], Py_Object [7]]), Some huge_file)"
    unfolding getRecord_valid [OF valid readable] id rewound tuple_of_record
    by (simp add: current_fields_def first example_event_def example_env_def)
       (simp add: huge_file_def example_schema_def field_item_def GetSize_def)
  show "XCDFRecord_iterator example_env (Some huge_file) None None = Returned huge_iterator"
    by (simp add: XCDFRecord_iterator_def example_env_def count huge_iterator_def
        int_of_uint64_def)
  have "XCDFRecordIterator_iternext example_env huge_iterator huge_file =
          (Raised PyExc_StopIteration, huge_iterator, huge_file)"
    by (subst iternext_unfold) (simp add: huge_iterator_def rewound)
  then show "iterate_records example_env huge_iterator huge_file =
     ([], PyExc_StopIteration, huge_iterator, huge_file)"
    by (subst iterate_records.simps) simp
qed

text \<open>
  Claim C4. During record iteration with a selection predicate, the evaluator is
  consulted exactly once for every record the iteration reaches: the records consulted
  in one loop are the consecutive records from the cursor on, each once and in order.
  The objects surfaced are exactly those of the consulted records on which the
  evaluator returned true, in order; a record on which it returned false is skipped and
  the iteration goes on to the next record. When the file is intact and its record
  count fits the iterator's counters, every record from the cursor to the end of the
  file is consulted.
\<close>

theorem C4_select_once_per_record:
  assumes "iterate_records env p f = (items, stop, p', f')"
  shows "selectCalls p' = selectCalls p @
           map int [eventsRead f ..< eventsRead f + (length (selectCalls p') - length (selectCalls p))] \<and>
         items = map (\<lambda>j. surface env p (at_event f j))
                   (filter (\<lambda>j. selectEvent p (at_event f j))
                      [eventsRead f ..< eventsRead f + (length (selectCalls p') - length (selectCalls p))]) \<and>
         (iCurrent p \<le> int (eventsRead f) \<and> iTotal p = int_of_uint64 (GetEventCount f) \<and>
          GetEventCount f < 2 ^ 31 \<and> corruptFrom f = None \<longrightarrow>
            selectCalls p' = selectCalls p @ map int [eventsRead f ..< length (eventList f)])"
proof -
  from iterate_records_spec [OF assms] obtain m where m:
    "eventsRead f \<le> m"
    "selectCalls p' = selectCalls p @ map int [eventsRead f ..< m]"
    "items = map (\<lambda>j. surface env p (at_event f j))
               (filter (\<lambda>j. selectEvent p (at_event f j)) [eventsRead f ..< m])"
    by auto
  have "length (selectCalls p') - length (selectCalls p) = m - eventsRead f"
    using m(2) by simp
  then have c: "eventsRead f + (length (selectCalls p') - length (selectCalls p)) = m"
    using m(1) by simp
  have "selectCalls p' = selectCalls p @ map int [eventsRead f ..< length (eventList f)]"
    if "iCurrent p \<le> int (eventsRead f)" "iTotal p = int_of_uint64 (GetEventCount f)"
       "GetEventCount f < 2 ^ 31" "corruptFrom f = None"
  proof -
    have small: "length (eventList f) < 2 ^ 31"
      using that(3) by (simp add: GetEventCount_def)
    have "iTotal p = int (length (eventList f))"
      using that(2) int_of_uint64_small [OF small] by (simp add: GetEventCount_def)
    from iterate_records_covers [OF this small that(4,1) assms] show ?thesis
      by simp
  qed
  with m(2,3) show ?thesis
    unfolding c by blast
qed

theorem C4_select_once_per_record_witness:
  "selectCalls (fst (snd (snd (iterate_records example_env example_iterator example_file)))) =
     [0, 1, 2] \<and>
   fst (iterate_records example_env example_iterator example_file) =
     [PyTuple [Py_Object [3], Py_Object [11, 22, 33]], PyTuple [Py_Object [2], Py_Object [5, 6]]]"
proof -
  let ?r = "iterate_records example_env example_iterator example_file"
  have run: "?r = (fst ?r, fst (snd ?r), fst (snd (snd ?r)), snd (snd (snd ?r)))"
    by simp
  have pre: "iCurrent example_iterator \<le> int (eventsRead example_file) \<and>
             iTotal example_iterator = int_of_uint64 (GetEventCount example_file) \<and>
             GetEventCount example_file < 2 ^ 31 \<and> corruptFrom example_file = None"
    by (simp add: example_iterator_def GetEventCount_def int_of_uint64_def)
  have start: "selectCalls example_iterator = []"
    by (simp add: example_iterator_def)
  have calls: "selectCalls (fst (snd (snd ?r))) = [0, 1, 2]"
    using C4_select_once_per_record [OF run] pre
    by (simp add: start map_int_upt_0_3)
  have selected: "filter (\<lambda>j. selectEvent example_iterator (at_event example_file j)) [0 ..< 3] =
                  [0, Suc (Suc 0)]"
    by (simp add: upt_0_3 example_iterator_def example_event_def)
  have c: "eventsRead example_file +
             (length (selectCalls (fst (snd (snd ?r)))) - length (selectCalls example_iterator)) = 3"
    by (simp add: calls start)
  have k: "eventsRead example_file = 0"
    by simp
  have "fst ?r = map (\<lambda>j. surface example_env example_iterator (at_event example_file j))
                   (filter (\<lambda>j. selectEvent example_iterator (at_event example_file j))
                      [eventsRead example_file ..< eventsRead example_file +
             (length (selectCalls (fst (snd (snd ?r)))) - length (selectCalls example_iterator))])"
    using C4_select_once_per_record [OF run] by blast
  then have "fst ?r = map (\<lambda>j. surface example_env example_iterator (at_event example_file j))
                   (filter (\<lambda>j. selectEvent example_iterator (at_event example_file j)) [0 ..< 3])"
    unfolding c unfolding k .
  also have "\<dots> = [PyTuple [Py_Object [3], Py_Object [11, 22, 33]],
                    PyTuple [Py_Object [2], Py_Object [5, 6]]]"
    unfolding selected
    by (simp add: example_surface field_item_def GetSize_def example_event_def)
  finally show ?thesis
    using calls by simp
qed

text \<open>
  Claim C5. For every loaded record, the field visitor traversal invokes the callback
  once for each declared field, in schema declaration order: a visitor that writes down
  the name of every field it is called with ends with the declared names in declaration
  order. The tuple the \<^verbatim>\<open>TupleSetter\<close> builds has one entry per declared field, in that
  order: the entry of a field is the converted field, or \<^verbatim>\<open>None\<close> when the field holds
  no value.
\<close>

theorem C5_visitor_schema_order:
  "ApplyFieldVisitor (\<lambda>seen field. seen @ [GetName field]) [] f = map d_name (fieldList f) \<and>
   GetTuple (ApplyFieldVisitor (TupleSetter_call conv) (TupleSetter (GetNFields f)) f) =
     PyTuple (map (\<lambda>d. field_item conv (XCDFField (d_name d) (d_type d) (currentEvent f (d_name d))))
                (fieldList f))"
proof
  show "ApplyFieldVisitor (\<lambda>seen field. seen @ [GetName field]) [] f = map d_name (fieldList f)"
    by (simp add: ApplyFieldVisitor_def foldl_snoc_map current_fields_def comp_def)
  show "GetTuple (ApplyFieldVisitor (TupleSetter_call conv) (TupleSetter (GetNFields f)) f) =
     PyTuple (map (\<lambda>d. field_item conv (XCDFField (d_name d) (d_type d) (currentEvent f (d_name d))))
                (fieldList f))"
    by (simp add: tuple_of_record current_fields_def comp_def)
qed

theorem C5_visitor_schema_order_witness:
  "ApplyFieldVisitor (\<lambda>seen field. seen @ [GetName field]) []
     (example_file\<lparr>eventsRead := 1\<rparr>) = [''nhit'', ''pe''] \<and>
   GetTuple (ApplyFieldVisitor (TupleSetter_call GetData) (TupleSetter 2)
     (example_file\<lparr>eventsRead := 1\<rparr>)) =
     PyTuple [Py_Object [3], Py_Object [11, 22, 33]]"
  using C5_visitor_schema_order [of "example_file\<lparr>eventsRead := 1\<rparr>" GetData]
  by (simp add: example_file_def example_schema_def example_event_def GetNFields_def
      currentEvent_def field_item_def GetSize_def)



text \<open>
  Claim C7. Reaching the end of the file ends the iteration with \<^verbatim>\<open>StopIteration\<close>,
  which is not the failure exception \<^verbatim>\<open>XCDFException\<close>: a call of \<^verbatim>\<open>iternext\<close> with
  the cursor at the end of the file raises \<^verbatim>\<open>StopIteration\<close> and rewinds the file, and
  every loop over an intact file of \<open>n\<close> records returns at most \<open>n\<close> objects and
  then stops with \<^verbatim>\<open>StopIteration\<close>.
\<close>

theorem C7_end_of_file_stops_iteration:
  assumes "corruptFrom f = None" and "iterate_records env p f = (items, stop, p', f')"
  shows "stop = PyExc_StopIteration \<and> stop \<noteq> pyxcdf_XCDFException msg \<and>
         length items \<le> length (eventList f) \<and>
         (length (eventList f) \<le> eventsRead f \<longrightarrow>
            XCDFRecordIterator_iternext env p f = (Raised PyExc_StopIteration, p, Rewind f))"
proof -
  from iterate_records_spec [OF assms(2)] obtain m where m:
    "eventsRead f \<le> m" "m = eventsRead f \<or> m \<le> length (eventList f)"
    "items = map (\<lambda>j. surface env p (at_event f j))
               (filter (\<lambda>j. selectEvent p (at_event f j)) [eventsRead f ..< m])"
    "stop = PyExc_StopIteration \<or>
     stop = pyxcdf_XCDFException (GetMessage CorruptBlockError) \<and> corruptFrom f \<noteq> None"
    by auto
  have stop: "stop = PyExc_StopIteration"
    using m(4) assms(1) by simp
  have "length items \<le> length [eventsRead f ..< m]"
    unfolding m(3) length_map by (rule length_filter_le)
  also have "\<dots> \<le> length (eventList f)"
    using m(1,2) by auto
  finally have len: "length items \<le> length (eventList f)" .
  have "XCDFRecordIterator_iternext env p f = (Raised PyExc_StopIteration, p, Rewind f)"
    if "length (eventList f) \<le> eventsRead f"
    using that by (subst iternext_unfold) simp
  with stop len show ?thesis
    by simp
qed

theorem C7_end_of_file_stops_iteration_witness:
  "corruptFrom example_file = None \<and>
   fst (snd (iterate_records example_env example_iterator example_file)) = PyExc_StopIteration \<and>
   length (fst (iterate_records example_env example_iterator example_file)) \<le> 3 \<and>
   XCDFRecordIterator_iternext example_env example_iterator (example_file\<lparr>eventsRead := 3\<rparr>) =
     (Raised PyExc_StopIteration, example_iterator, example_file)"
proof -
  let ?r = "iterate_records example_env example_iterator example_file"
  have run: "?r = (fst ?r, fst (snd ?r), fst (snd (snd ?r)), snd (snd (snd ?r)))"
    by simp
  have intact: "corruptFrom example_file = None"
    by simp
  let ?g = "example_file\<lparr>eventsRead := 3\<rparr>"
  have run3: "iterate_records example_env example_iterator ?g =
     (fst (iterate_records example_env example_iterator ?g),
      fst (snd (iterate_records example_env example_iterator ?g)),
      fst (snd (snd (iterate_records example_env example_iterator ?g))),
      snd (snd (snd (iterate_records example_env example_iterator ?g))))"
    by simp
  have intact3: "corruptFrom ?g = None"
    by simp
  have "XCDFRecordIterator_iternext example_env example_iterator ?g =
     (Raised PyExc_StopIteration, example_iterator, example_file)"
    using C7_end_of_file_stops_iteration [OF intact3 run3]
    by (simp add: Rewind_def example_file_def)
  then show ?thesis
    using C7_end_of_file_stops_iteration [OF intact run] by simp
qed

text \<open>
  Claim C8. After a call of \<^verbatim>\<open>getRecord\<close> that returns a record, the file is the
  rewound file, whatever record was fetched: its cursor is at record 0, the next
  \<^verbatim>\<open>Read\<close> loads record 0, and a call of \<^verbatim>\<open>iternext\<close> whose selection accepts record
  0 returns record 0.
\<close>

theorem C8_getRecord_rewinds:
  assumes "XCDFFile_getRecord env (Some f) recordId fieldNames = (Returned t, self')"
  shows "self' = Some (Rewind f) \<and> eventsRead (Rewind f) = 0 \<and>
         Read (Rewind f) = Inr (1, at_event f 0) \<and>
         (iCurrent p < iTotal p \<and> selectEvent p (at_event f 0) \<longrightarrow>
            XCDFRecordIterator_iternext env p (Rewind f) =
              (Returned (surface env p (at_event f 0)), consulted p (at_event f 0), at_event f 0))"
proof -
  from getRecord_Returned [OF assms]
  have valid: "unat (PyLong_AsUnsignedLongLongMask recordId) < length (eventList f)"
    and readable: "\<not> unreadable f (unat (PyLong_AsUnsignedLongLongMask recordId))"
    and self': "self' = Some (Rewind f)"
    by auto
  have nonempty: "eventList f \<noteq> []"
    using valid by auto
  have first: "\<not> unreadable f 0"
    using readable by (auto simp: unreadable_def split: option.splits)
  have read: "Read (Rewind f) = Inr (1, at_event f 0)"
    using nonempty first by (simp add: Read_def Rewind_def at_event_def unreadable_def)
  have "XCDFRecordIterator_iternext env p (Rewind f) =
          (Returned (surface env p (at_event f 0)), consulted p (at_event f 0), at_event f 0)"
    if "iCurrent p < iTotal p" "selectEvent p (at_event f 0)"
    using that nonempty first
    by (subst iternext_unfold)
       (simp add: Rewind_def at_event_def unreadable_def int_of_uint64_def)
  with self' read show ?thesis
    by (simp add: Rewind_def)
qed

theorem C8_getRecord_rewinds_witness:
  "XCDFFile_getRecord example_env (Some example_file) (PyLong 2) None =
     (Returned (PyTuple [Py_Object [2], Py_Object [5, 6]]), Some example_file) \<and>
   eventsRead (Rewind example_file) = 0 \<and>
   Read (Rewind example_file) = Inr (1, at_event example_file 0) \<and>
   XCDFRecordIterator_iternext example_env example_iterator (Rewind example_file) =
     (Returned (PyTuple [Py_Object [3], Py_Object [11, 22, 33]]),
      consulted example_iterator (at_event example_file 0), at_event example_file 0)"
proof -
  have id: "unat (PyLong_AsUnsignedLongLongMask (PyLong 2)) = 2"
    by simp
  have get: "XCDFFile_getRecord example_env (Some example_file) (PyLong 2) None =
     (Returned (PyTuple [Py_Object [2], Py_Object [5, 6]]), Some example_file)"
    by (subst getRecord_valid)
       (simp_all only: id example_record Rewind_example_file example_not_unreadable,
        simp_all add: example_file_def example_event_def field_item_def GetSize_def)
  have pre: "iCurrent example_iterator < iTotal example_iterator \<and>
             selectEvent example_iterator (at_event example_file 0)"
    by (simp add: example_iterator_def example_event_def)
  have item: "surface example_env example_iterator (at_event example_file 0) =
              PyTuple [Py_Object [3], Py_Object [11, 22, 33]]"
    by (simp add: example_surface field_item_def GetSize_def example_event_def)
  have "eventsRead (Rewind example_file) = 0 \<and>
        Read (Rewind example_file) = Inr (1, at_event example_file 0) \<and>
        XCDFRecordIterator_iternext example_env example_iterator (Rewind example_file) =
          (Returned (surface example_env example_iterator (at_event example_file 0)),
           consulted example_iterator (at_event example_file 0), at_event example_file 0)"
    using C8_getRecord_rewinds [OF get, of example_iterator] pre by blast
  then show ?thesis
    using get unfolding item by blast
qed

text \<open>
  Claim C9 fails on the code. The enumerators being numbered 0, 1 and 2, on a file just
  opened for writing:

  \<^item> the type code \<open>2^32\<close> is none of them, but the cast to the enumeration keeps its
    low 32 bits, the \<^verbatim>\<open>switch\<close> takes the case of the unsigned integers, the field is
    allocated and the call returns \<^verbatim>\<open>True\<close>;
  \<^item> the type code \<open>2^64\<close> does not fit a \<^verbatim>\<open>long\<close>: the call returns \<^verbatim>\<open>False\<close> with
    the \<^verbatim>\<open>OverflowError\<close> of the conversion still set;
  \<^item> with the recognised type code 1 and the resolution \<open>2^63\<close> the allocation
    succeeds, with the resolution \<open>-1\<close>, and the call returns \<^verbatim>\<open>True\<close> with the
    \<^verbatim>\<open>OverflowError\<close> of the conversion still set.
\<close>

theorem C9_type_code_narrowed:
  "map (\<lambda>t. uint (XCDFFieldType_value example_env t))
     [XCDF_UNSIGNED_INTEGER, XCDF_SIGNED_INTEGER, XCDF_FLOATING_POINT] = [0, 1, 2] \<and>
   XCDFFile_addField example_env (Some new_file) ''nhit'' (PyLong 4294967296) (PyLong 1) None =
     Some (Py_True, None,
           Some (new_file\<lparr>fieldList :=
             [\<lparr>d_name = ''nhit'', d_type = XCDF_UNSIGNED_INTEGER,
               d_resolution = UnsignedResolution 1, d_parentName = ''''\<rparr>]\<rparr>)) \<and>
   XCDFFile_addField example_env (Some new_file) ''nhit'' (PyLong 18446744073709551616)
       (PyLong 1) None =
     Some (Py_False, Some PyExc_OverflowError, Some new_file) \<and>
   XCDFFile_addField example_env (Some new_file) ''pe'' (PyLong 1)
       (PyLong 9223372036854775808) None =
     Some (Py_True, Some PyExc_OverflowError,
           Some (new_file\<lparr>fieldList :=
             [\<lparr>d_name = ''pe'', d_type = XCDF_SIGNED_INTEGER,
               d_resolution = SignedResolution (- 1), d_parentName = ''''\<rparr>]\<rparr>))"
proof (intro conjI)
  show "map (\<lambda>t. uint (XCDFFieldType_value example_env t))
     [XCDF_UNSIGNED_INTEGER, XCDF_SIGNED_INTEGER, XCDF_FLOATING_POINT] = [0, 1, 2]"
    by (simp add: example_env_def)
  have narrowed: "static_cast_XCDFFieldType 4294967296 = 0"
    by (simp add: static_cast_XCDFFieldType_def)
  show "XCDFFile_addField example_env (Some new_file) ''nhit'' (PyLong 4294967296) (PyLong 1) None =
     Some (Py_True, None,
           Some (new_file\<lparr>fieldList :=
             [\<lparr>d_name = ''nhit'', d_type = XCDF_UNSIGNED_INTEGER,
               d_resolution = UnsignedResolution 1, d_parentName = ''''\<rparr>]\<rparr>))"
    by (simp add: addField_switch narrowed recognised_def example_env_def declareField_def
        new_file_def parent_argument_def PyBytes_AsString_def resolution_argument_def
        resolution_error_def bad_resolution_def PyErr_after_def)
  have unknown: "static_cast_XCDFFieldType (- 1) = - 1"
    by (simp add: static_cast_XCDFFieldType_def)
  show "XCDFFile_addField example_env (Some new_file) ''nhit'' (PyLong 18446744073709551616)
       (PyLong 1) None =
     Some (Py_False, Some PyExc_OverflowError, Some new_file)"
    by (simp add: addField_switch unknown recognised_def example_env_def parent_argument_def)
  have signed: "static_cast_XCDFFieldType 1 = 1"
    by (simp add: static_cast_XCDFFieldType_def)
  show "XCDFFile_addField example_env (Some new_file) ''pe'' (PyLong 1)
       (PyLong 9223372036854775808) None =
     Some (Py_True, Some PyExc_OverflowError,
           Some (new_file\<lparr>fieldList :=
             [\<lparr>d_name = ''pe'', d_type = XCDF_SIGNED_INTEGER,
               d_resolution = SignedResolution (- 1), d_parentName = ''''\<rparr>]\<rparr>))"
    by (simp add: addField_switch signed recognised_def example_env_def declareField_def
        new_file_def parent_argument_def PyBytes_AsString_def resolution_argument_def
        resolution_error_def bad_resolution_def PyErr_after_def)
qed

text \<open>
  Claim C10. When a field holds no value in the loaded record (its size is 0, as for a
  vector field whose parent count is 0), the tuple built by the field visitor holds
  \<^verbatim>\<open>None\<close> in that field's slot.
\<close>

theorem C10_empty_field_is_None:
  assumes "k < length (fieldList f)" and "GetSize (current_fields f ! k) = 0"
  shows "PyTuple_GetItem
           (GetTuple (ApplyFieldVisitor (TupleSetter_call conv) (TupleSetter (GetNFields f)) f))
           (int k) = Py_None"
  using assms
  by (simp add: tuple_of_record PyTuple_GetItem_def length_current_fields field_item_def)

theorem C10_empty_field_is_None_witness:
  "(1::nat) < length (fieldList (example_file\<lparr>eventsRead := 2\<rparr>)) \<and>
   GetSize (current_fields (example_file\<lparr>eventsRead := 2\<rparr>) ! 1) = 0 \<and>
   GetTuple (ApplyFieldVisitor (TupleSetter_call GetData) (TupleSetter 2)
     (example_file\<lparr>eventsRead := 2\<rparr>)) = PyTuple [Py_Object [0], Py_None] \<and>
   PyTuple_GetItem
     (GetTuple (ApplyFieldVisitor (TupleSetter_call GetData)
        (TupleSetter (GetNFields (example_file\<lparr>eventsRead := 2\<rparr>)))
        (example_file\<lparr>eventsRead := 2\<rparr>))) (int 1) = Py_None"
proof -
  have k: "(1::nat) < length (fieldList (example_file\<lparr>eventsRead := 2\<rparr>))"
    by (simp add: example_file_def example_schema_def)
  have empty: "GetSize (current_fields (example_file\<lparr>eventsRead := 2\<rparr>) ! 1) = 0"
    by (simp add: example_file_def example_schema_def example_event_def current_fields_def
        currentEvent_def GetSize_def)
  have tuple: "GetTuple (ApplyFieldVisitor (TupleSetter_call GetData) (TupleSetter 2)
     (example_file\<lparr>eventsRead := 2\<rparr>)) = PyTuple [Py_Object [0], Py_None]"
    using tuple_of_record [of GetData "example_file\<lparr>eventsRead := 2\<rparr>"]
    by (simp add: example_file_def example_schema_def example_event_def GetNFields_def
        current_fields_def currentEvent_def field_item_def GetSize_def)
  show ?thesis
    using k empty tuple C10_empty_field_is_None [OF k empty, of GetData] by simp
qed

end
